theory Spec2Isabelle
  imports Main
begin

section \<open>The connection state store of src/src/store/pnp.js\<close>

text \<open>
  The store is a Vuex module: a state object, mutations that assign its fields, and
  asynchronous actions that commit mutations, arm timers and install event handlers on
  the relay session (a PeerJS \<open>Peer\<close>) and on data connections. The embedding keeps
  the state as a record, the session and connection objects in two heaps addressed by
  position, the pending timers in a list addressed by timer id, and turns every handler
  that JavaScript runs to completion (a dispatched action up to its first network wait,
  an event handler, a timer callback, the continuation of a network wait) into a
  function on the whole system. What the outside world decides (which event arrives,
  what a request returns, whether \<open>close()\<close> raises) is an input of the step function.
\<close>

subsection \<open>Status constants (mutation-types.js, used as status values)\<close>

datatype discovery_status =
  PEER_DISCOVERING_OFF | PEER_DISCOVERING | PEER_DISCOVERING_DONE
  | PEER_DISCOVERING_CANCELLED | PEER_DISCOVERING_ERROR

datatype peer_connection_status =
  PEER_DISCONNECTED | PEER_CONNECTING | PEER_DISCONNECTING
  | PEER_AUTHENTICATING | PEER_CONNECTED | PEER_CONNECTION_ERROR

datatype pnp_service_status =
  PNP_SERVICE_DISCONNECTED | PNP_SERVICE_CONNECTING | PNP_SERVICE_CONNECTED

datatype edge_api = EdgeAPI

subsection \<open>The state object\<close>

text \<open>
  \<open>undefined\<close> is \<open>None\<close>. \<open>peer\<close> and \<open>peerConnection\<close> hold the address of a
  session or connection object; \<open>peerFetch\<close> holds the address of the connection the
  PeerFetch wrapper was built over.
\<close>

record pnp_state =
  peer :: "nat option"
  myPeerId :: "string option"
  remotePeerId :: "string option"
  lastPeerId :: "string option"
  discoveryStatus :: discovery_status
  discoveredPeers :: "string list option"
  userMessage :: string
  peerConnection :: "nat option"
  peerConnectionStatus :: peer_connection_status
  pnpServiceConnectionStatus :: pnp_service_status
  peerFetch :: "nat option"
  edgeAPI :: "edge_api option"
  discoveryLoopPause :: nat
  peerConnectLoopPause :: nat
  peerConnectOfferTimeout :: nat

subsection \<open>Objects outside the state: sessions, connections, timers\<close>

text \<open>
  A session object carries the two fields the store reads and writes (\<open>id\<close>,
  \<open>_lastServerId\<close>), its \<open>open\<close> flag, and whether
  \<open>setPnPServiceConnectionHandlers\<close> has installed the handlers on it.
\<close>

record peer_obj =
  peer_id :: "string option"
  lastServerId :: "string option"
  peer_open :: bool
  peer_wired :: bool

text \<open>
  A connection object carries the remote id (\<open>peerConnection.peer\<close>), whether it has
  been closed, whether its \<open>close()\<close> raises (decided by the transport library),
  whether \<open>setPeerConnectionHandlers\<close> has installed the handlers on it, and the timer
  id those handlers captured (\<open>peerConnectOfferTimer\<close>, undefined for an accepted
  connection).
\<close>

record conn_obj =
  conn_peer :: string
  conn_closed :: bool
  close_raises :: bool
  conn_wired :: bool
  offerTimer :: "nat option"

text \<open>The functions handed to \<open>setTimeout\<close>, with the variables they close over.\<close>

datatype callback =
  CB_PNP_SERVICE_CONNECT
  | CB_discoveryLoop
  | CB_peerConnectLoop string
  | CB_handlePeerConnectOfferTimeout nat string
  | CB_PEER_AUTHENTICATE nat

record timer =
  callback :: callback
  delay :: nat
  pending :: bool

text \<open>
  The system: the state, \<open>window.localStorage\<close>, the two heaps, the timers, the
  connections whose \<open>auth()\<close> request is in flight, the number of room queries in
  flight, and the sequence of values committed to \<open>peerConnectionStatus\<close> so far
  (what a subscriber of the store has seen).
\<close>

record sys =
  st :: pnp_state
  localStorage :: "string \<Rightarrow> string option"
  peers :: "peer_obj list"
  conns :: "conn_obj list"
  timers :: "timer list"
  authPending :: "nat list"
  roomPending :: nat
  statusLog :: "peer_connection_status list"

definition STORAGE_KEY :: string where
  "STORAGE_KEY = ''ambianic-pnp-settings''"

definition remotePeerIdKey :: string where
  "remotePeerIdKey = STORAGE_KEY @ ''.remotePeerId''"

definition lookup :: "'a list \<Rightarrow> nat \<Rightarrow> 'a option" where
  "lookup xs i = (if i < length xs then Some (xs ! i) else None)"

text \<open>The state at module load: \<open>remotePeerId\<close> is read from durable storage.\<close>

definition initial_state :: "(string \<Rightarrow> string option) \<Rightarrow> pnp_state" where
  "initial_state ls =
     \<lparr> peer = None, myPeerId = None, remotePeerId = ls remotePeerIdKey, lastPeerId = None,
       discoveryStatus = PEER_DISCOVERING_OFF, discoveredPeers = Some [],
       userMessage = [], peerConnection = None,
       peerConnectionStatus = PEER_DISCONNECTED,
       pnpServiceConnectionStatus = PNP_SERVICE_DISCONNECTED,
       peerFetch = None, edgeAPI = None,
       discoveryLoopPause = 3000, peerConnectLoopPause = 500,
       peerConnectOfferTimeout = 15000 \<rparr>"

definition initial :: "(string \<Rightarrow> string option) \<Rightarrow> sys" where
  "initial ls =
     \<lparr> st = initial_state ls, localStorage = ls, peers = [], conns = [], timers = [],
       authPending = [], roomPending = 0, statusLog = [] \<rparr>"

subsection \<open>Mutations\<close>

definition set_status :: "peer_connection_status \<Rightarrow> sys \<Rightarrow> sys" where
  "set_status x s =
     s\<lparr>st := (st s)\<lparr>peerConnectionStatus := x\<rparr>, statusLog := statusLog s @ [x]\<rparr>"

definition commit_PEER_NEW_INSTANCE :: "nat \<Rightarrow> sys \<Rightarrow> sys" where
  "commit_PEER_NEW_INSTANCE p s = s\<lparr>st := (st s)\<lparr>peer := Some p\<rparr>\<rparr>"

definition commit_PEER_DISCONNECTED :: "sys \<Rightarrow> sys" where
  "commit_PEER_DISCONNECTED s =
     (let s1 = s\<lparr>st := (st s)\<lparr>peerConnection := None\<rparr>\<rparr>;
          s2 = set_status PEER_DISCONNECTED s1
      in s2\<lparr>st := (st s2)\<lparr>peerFetch := None, edgeAPI := None\<rparr>\<rparr>)"

definition commit_PEER_DISCOVERING_DONE :: "string list option \<Rightarrow> sys \<Rightarrow> sys" where
  "commit_PEER_DISCOVERING_DONE remotePeerIds s =
     s\<lparr>st := (st s)\<lparr>discoveryStatus := PEER_DISCOVERING_DONE,
                     discoveredPeers := remotePeerIds\<rparr>\<rparr>"

definition commit_PEER_DISCOVERING :: "sys \<Rightarrow> sys" where
  "commit_PEER_DISCOVERING s =
     s\<lparr>st := (st s)\<lparr>discoveryStatus := PEER_DISCOVERING, discoveredPeers := Some []\<rparr>\<rparr>"

definition commit_PEER_DISCOVERING_CANCELLED :: "sys \<Rightarrow> sys" where
  "commit_PEER_DISCOVERING_CANCELLED s =
     s\<lparr>st := (st s)\<lparr>discoveryStatus := PEER_DISCOVERING_CANCELLED\<rparr>\<rparr>"

definition commit_PEER_DISCOVERING_ERROR :: "sys \<Rightarrow> sys" where
  "commit_PEER_DISCOVERING_ERROR s =
     s\<lparr>st := (st s)\<lparr>discoveryStatus := PEER_DISCOVERING_ERROR\<rparr>\<rparr>"

definition commit_PEER_DISCOVERING_OFF :: "sys \<Rightarrow> sys" where
  "commit_PEER_DISCOVERING_OFF s =
     s\<lparr>st := (st s)\<lparr>discoveryStatus := PEER_DISCOVERING_OFF\<rparr>\<rparr>"

definition commit_PEER_CONNECTING :: "sys \<Rightarrow> sys" where
  "commit_PEER_CONNECTING s = set_status PEER_CONNECTING s"

definition commit_PEER_DISCONNECTING :: "sys \<Rightarrow> sys" where
  "commit_PEER_DISCONNECTING s = set_status PEER_DISCONNECTING s"

definition commit_PEER_AUTHENTICATING :: "sys \<Rightarrow> sys" where
  "commit_PEER_AUTHENTICATING s = set_status PEER_AUTHENTICATING s"

definition commit_PEER_CONNECTED :: "nat \<Rightarrow> sys \<Rightarrow> sys" where
  "commit_PEER_CONNECTED c s =
     set_status PEER_CONNECTED (s\<lparr>st := (st s)\<lparr>peerConnection := Some c\<rparr>\<rparr>)"

definition commit_PEER_CONNECTION_ERROR :: "sys \<Rightarrow> sys" where
  "commit_PEER_CONNECTION_ERROR s = set_status PEER_CONNECTION_ERROR s"

definition commit_PNP_SERVICE_DISCONNECTED :: "sys \<Rightarrow> sys" where
  "commit_PNP_SERVICE_DISCONNECTED s =
     s\<lparr>st := (st s)\<lparr>pnpServiceConnectionStatus := PNP_SERVICE_DISCONNECTED\<rparr>\<rparr>"

definition commit_PNP_SERVICE_CONNECTING :: "sys \<Rightarrow> sys" where
  "commit_PNP_SERVICE_CONNECTING s =
     s\<lparr>st := (st s)\<lparr>pnpServiceConnectionStatus := PNP_SERVICE_CONNECTING\<rparr>\<rparr>"

definition commit_PNP_SERVICE_CONNECTED :: "sys \<Rightarrow> sys" where
  "commit_PNP_SERVICE_CONNECTED s =
     s\<lparr>st := (st s)\<lparr>pnpServiceConnectionStatus := PNP_SERVICE_CONNECTED\<rparr>\<rparr>"

definition commit_USER_MESSAGE :: "string \<Rightarrow> sys \<Rightarrow> sys" where
  "commit_USER_MESSAGE newUserMessage s = s\<lparr>st := (st s)\<lparr>userMessage := newUserMessage\<rparr>\<rparr>"

definition commit_NEW_PEER_ID :: "string \<Rightarrow> sys \<Rightarrow> sys" where
  "commit_NEW_PEER_ID newPeerId s = s\<lparr>st := (st s)\<lparr>myPeerId := Some newPeerId\<rparr>\<rparr>"

definition commit_NEW_REMOTE_PEER_ID :: "string \<Rightarrow> sys \<Rightarrow> sys" where
  "commit_NEW_REMOTE_PEER_ID newRemotePeerId s =
     s\<lparr>st := (st s)\<lparr>remotePeerId := Some newRemotePeerId\<rparr>,
       localStorage := (localStorage s)(remotePeerIdKey \<mapsto> newRemotePeerId)\<rparr>"

definition commit_REMOTE_PEER_ID_REMOVED :: "sys \<Rightarrow> sys" where
  "commit_REMOTE_PEER_ID_REMOVED s =
     s\<lparr>st := (st s)\<lparr>remotePeerId := None\<rparr>,
       localStorage := (localStorage s)(remotePeerIdKey := None)\<rparr>"

definition commit_PEER_FETCH :: "nat \<Rightarrow> sys \<Rightarrow> sys" where
  "commit_PEER_FETCH pf s = s\<lparr>st := (st s)\<lparr>peerFetch := Some pf\<rparr>\<rparr>"

definition commit_EDGE_API :: "edge_api \<Rightarrow> sys \<Rightarrow> sys" where
  "commit_EDGE_API api s = s\<lparr>st := (st s)\<lparr>edgeAPI := Some api\<rparr>\<rparr>"

subsection \<open>Timers and \<open>close()\<close>\<close>

definition setTimeout :: "callback \<Rightarrow> nat \<Rightarrow> sys \<Rightarrow> sys" where
  "setTimeout cb d s = s\<lparr>timers := timers s @ [\<lparr>callback = cb, delay = d, pending = True\<rparr>]\<rparr>"

definition clearTimeout :: "nat option \<Rightarrow> sys \<Rightarrow> sys" where
  "clearTimeout t s =
     (case t of
        None \<Rightarrow> s
      | Some i \<Rightarrow>
          (case lookup (timers s) i of
             None \<Rightarrow> s
           | Some tm \<Rightarrow> s\<lparr>timers := (timers s)[i := tm\<lparr>pending := False\<rparr>]\<rparr>))"

text \<open>\<open>conn.close()\<close>: \<open>None\<close> when the call raises, otherwise the object is closed.\<close>

definition conn_close :: "nat \<Rightarrow> sys \<Rightarrow> sys option" where
  "conn_close c s =
     (case lookup (conns s) c of
        None \<Rightarrow> Some s
      | Some co \<Rightarrow>
          if close_raises co then None
          else Some (s\<lparr>conns := (conns s)[c := co\<lparr>conn_closed := True\<rparr>]\<rparr>))"

definition peerOf :: "sys \<Rightarrow> nat \<Rightarrow> string" where
  "peerOf s c = (case lookup (conns s) c of None \<Rightarrow> [] | Some co \<Rightarrow> conn_peer co)"

subsection \<open>User messages\<close>

definition msg_still_looking :: string where
  "msg_still_looking =
     ''Still looking.'' @ [CHR 0x0A] @
     ''        Please make sure you are on the same local network'' @ [CHR 0x0A] @
     ''        as the Ambianic Edge device.'' @ [CHR 0x0A] @
     ''      ''"

definition msg_discovery_error :: string where
  "msg_discovery_error = ''Error while discovering peers on local WiFi.''"

definition msg_service_disconnected :: string where
  "msg_service_disconnected = ''Disconnected. Please check your internet connection.''"

definition msg_service_closed :: string where
  "msg_service_closed = ''Signaling server closed connection. Will try to reconnect.''"

definition msg_service_error :: string where
  "msg_service_error =
     [CHR 0x0A] @
     ''      Error while connecting. Will retry shortly. Is your Internet connection OK?'' @
     [CHR 0x0A] @ ''      ''"

definition msg_connection_closed :: string where
  "msg_connection_closed = ''Connection to remote peer closed''"

definition msg_offer_expired :: string where
  "msg_offer_expired = ''Peer connection attempt failed. Is the remote device online?''"

definition msg_auth_failed :: string where
  "msg_auth_failed = ''Remote peer authentication failed.''"

definition msg_authenticating :: "string \<Rightarrow> string" where
  "msg_authenticating p = ''Authenticating remote peer: '' @ p"

definition msg_connection_error :: "string \<Rightarrow> string" where
  "msg_connection_error p = ''Error in connection to remote peer ID: '' @ p"

subsection \<open>What the outside world returns\<close>

text \<open>
  The response of \<open>EdgeAPI.auth()\<close> is \<open>{header: {status}, content}\<close>; the response
  or its header may be missing. \<open>PeerFetch.textDecode\<close> belongs to the byte-stream
  wrapper, outside this module: a content is represented by what \<open>textDecode\<close> makes
  of it, the decoded text, or nothing when decoding raises.
\<close>

datatype header = Header (status: int)

datatype content = Content (textDecode: "string option")

record response =
  header :: "header option"
  content :: content

datatype auth_result = AuthRaises | AuthReturns "response option"

text \<open>
  The room query \<open>getRoomMembers()\<close> raises, or returns an object whose
  \<open>clientsIds\<close> is a list of identifiers or is missing.
\<close>

datatype room_result = RoomRaises | RoomMembers "string list option"

text \<open>\<open>text.includes(pat)\<close>: \<open>pat\<close> occurs in \<open>text\<close> as a contiguous substring.\<close>

fun starts_with :: "string \<Rightarrow> string \<Rightarrow> bool" where
  "starts_with cs [] = True"
| "starts_with [] (p # ps) = False"
| "starts_with (c # cs) (p # ps) = (c = p \<and> starts_with cs ps)"

fun str_includes :: "string \<Rightarrow> string \<Rightarrow> bool" where
  "str_includes [] pat = starts_with [] pat"
| "str_includes (c # cs) pat = (starts_with (c # cs) pat \<or> str_includes cs pat)"

text \<open>JavaScript's \<open>!peer.id\<close>: the id is undefined or the empty string.\<close>

definition no_id :: "string option \<Rightarrow> bool" where
  "no_id i = (case i of None \<Rightarrow> True | Some x \<Rightarrow> x = [])"

subsection \<open>Actions of the relay session\<close>

definition HANDLE_PEER_CONNECTION_ERROR :: "nat \<Rightarrow> string \<Rightarrow> sys \<Rightarrow> sys" where
  "HANDLE_PEER_CONNECTION_ERROR c errMsg s =
     commit_PEER_CONNECTION_ERROR (commit_USER_MESSAGE errMsg s)"

definition PNP_SERVICE_RECONNECT :: "sys \<Rightarrow> sys" where
  "PNP_SERVICE_RECONNECT s =
     (case peer (st s) of
        None \<Rightarrow> s
      | Some a \<Rightarrow>
          (case lookup (peers s) a of
             None \<Rightarrow> s
           | Some po \<Rightarrow>
               if peer_open po then s
               else if pnpServiceConnectionStatus (st s) = PNP_SERVICE_CONNECTING then s
               else
                 let po1 = (if no_id (peer_id po) then po\<lparr>peer_id := myPeerId (st s)\<rparr> else po);
                     po2 = po1\<lparr>lastServerId := myPeerId (st s)\<rparr>
                 in commit_PNP_SERVICE_CONNECTING (s\<lparr>peers := (peers s)[a := po2]\<rparr>)))"

definition setPnPServiceConnectionHandlers :: "sys \<Rightarrow> sys" where
  "setPnPServiceConnectionHandlers s =
     (case peer (st s) of
        None \<Rightarrow> s
      | Some a \<Rightarrow>
          (case lookup (peers s) a of
             None \<Rightarrow> s
           | Some po \<Rightarrow> s\<lparr>peers := (peers s)[a := po\<lparr>peer_wired := True\<rparr>]\<rparr>))"

definition peer_is_open :: "sys \<Rightarrow> bool" where
  "peer_is_open s =
     (case peer (st s) of
        None \<Rightarrow> False
      | Some a \<Rightarrow> (case lookup (peers s) a of None \<Rightarrow> False | Some po \<Rightarrow> peer_open po))"

definition PNP_SERVICE_CONNECT :: "sys \<Rightarrow> sys" where
  "PNP_SERVICE_CONNECT s =
     (if peer_is_open s then s
      else if pnpServiceConnectionStatus (st s) = PNP_SERVICE_CONNECTING then s
      else if peer (st s) \<noteq> None then PNP_SERVICE_RECONNECT s
      else
        let a = length (peers s);
            newPeer = \<lparr>peer_id = myPeerId (st s), lastServerId = None,
                       peer_open = False, peer_wired = False\<rparr>;
            s1 = commit_PEER_NEW_INSTANCE a (s\<lparr>peers := peers s @ [newPeer]\<rparr>);
            s2 = setPnPServiceConnectionHandlers s1
        in commit_PNP_SERVICE_CONNECTING s2)"

definition INITIALIZE_PNP :: "sys \<Rightarrow> sys" where
  "INITIALIZE_PNP s = PNP_SERVICE_CONNECT (s\<lparr>st := (st s)\<lparr>peer := None\<rparr>\<rparr>)"

subsection \<open>Per-connection event wiring\<close>

definition setPeerConnectionHandlers :: "nat \<Rightarrow> nat option \<Rightarrow> sys \<Rightarrow> sys" where
  "setPeerConnectionHandlers c peerConnectOfferTimer s =
     (case lookup (conns s) c of
        None \<Rightarrow> s
      | Some co \<Rightarrow>
          s\<lparr>conns := (conns s)[c := co\<lparr>conn_wired := True,
                                        offerTimer := peerConnectOfferTimer\<rparr>]\<rparr>)"

definition on_conn_open :: "nat \<Rightarrow> sys \<Rightarrow> sys" where
  "on_conn_open c s =
     (case lookup (conns s) c of
        None \<Rightarrow> s
      | Some co \<Rightarrow>
          setTimeout (CB_PEER_AUTHENTICATE c) 1000
            (commit_PEER_FETCH c (clearTimeout (offerTimer co) s)))"

definition on_conn_close :: "nat \<Rightarrow> sys \<Rightarrow> sys" where
  "on_conn_close c s =
     (case lookup (conns s) c of
        None \<Rightarrow> s
      | Some co \<Rightarrow>
          commit_USER_MESSAGE msg_connection_closed
            (commit_PEER_DISCONNECTED (clearTimeout (offerTimer co) s)))"

definition on_conn_error :: "nat \<Rightarrow> sys \<Rightarrow> sys" where
  "on_conn_error c s =
     (case lookup (conns s) c of
        None \<Rightarrow> s
      | Some co \<Rightarrow>
          HANDLE_PEER_CONNECTION_ERROR c (msg_connection_error (conn_peer co))
            (clearTimeout (offerTimer co) s))"

subsection \<open>Handlers of the relay session's events\<close>

definition on_peer_open :: "nat \<Rightarrow> sys \<Rightarrow> sys" where
  "on_peer_open a s =
     (let s1 = commit_PNP_SERVICE_CONNECTED s in
      case lookup (peers s1) a of
        None \<Rightarrow> s1
      | Some po \<Rightarrow>
          (case peer_id po of
             None \<Rightarrow> s1\<lparr>peers := (peers s1)[a := po\<lparr>peer_id := myPeerId (st s1)\<rparr>]\<rparr>
           | Some i \<Rightarrow>
               if i = [] then s1\<lparr>peers := (peers s1)[a := po\<lparr>peer_id := myPeerId (st s1)\<rparr>]\<rparr>
               else if myPeerId (st s1) \<noteq> Some i then commit_NEW_PEER_ID i s1
               else s1))"

definition on_peer_disconnected :: "sys \<Rightarrow> sys" where
  "on_peer_disconnected s =
     setTimeout CB_PNP_SERVICE_CONNECT 3000
       (commit_USER_MESSAGE msg_service_disconnected (commit_PNP_SERVICE_DISCONNECTED s))"

definition on_peer_close :: "sys \<Rightarrow> sys" where
  "on_peer_close s =
     setTimeout CB_PNP_SERVICE_CONNECT 3000
       (commit_USER_MESSAGE msg_service_closed (commit_PNP_SERVICE_DISCONNECTED s))"

definition on_peer_error :: "sys \<Rightarrow> sys" where
  "on_peer_error s =
     setTimeout CB_PNP_SERVICE_CONNECT 3000
       (commit_PEER_DISCONNECTED
         (commit_PNP_SERVICE_DISCONNECTED (commit_USER_MESSAGE msg_service_error s)))"

text \<open>
  The \<open>connection\<close> event hands over a connection object the transport has made for
  the remote peer that calls in; the handler wires it (no offer timer) and commits
  PEER_CONNECTING.
\<close>

definition on_peer_connection :: "string \<Rightarrow> sys \<Rightarrow> sys" where
  "on_peer_connection remote s =
     (let c = length (conns s);
          incoming = \<lparr>conn_peer = remote, conn_closed = False, close_raises = False,
                      conn_wired = False, offerTimer = None\<rparr>;
          s1 = s\<lparr>conns := conns s @ [incoming]\<rparr>
      in commit_PEER_CONNECTING (setPeerConnectionHandlers c None s1))"

subsection \<open>Peer discovery\<close>

text \<open>
  \<open>discoverRemotePeerIds\<close> waits for the room query. Its continuation filters the
  member list and returns the remote ids when there are some; otherwise it publishes the
  "still looking" message and falls off the end of the function, so that it returns
  \<open>undefined\<close>.
\<close>

definition discoverRemotePeerIds :: "string list \<Rightarrow> sys \<Rightarrow> string list option \<times> sys" where
  "discoverRemotePeerIds peerIds s =
     (let remotePeerIds = filter (\<lambda>pid. Some pid \<noteq> myPeerId (st s)) peerIds in
      if length remotePeerIds > 0 then (Some remotePeerIds, s)
      else (None, commit_USER_MESSAGE msg_still_looking s))"

definition discoveryLoop_catch :: "sys \<Rightarrow> sys" where
  "discoveryLoop_catch s =
     commit_USER_MESSAGE msg_discovery_error (commit_PEER_DISCOVERING_ERROR s)"

text \<open>The discovery loop up to the room query (or to the timer of the next round).\<close>

definition discoveryLoop :: "sys \<Rightarrow> sys" where
  "discoveryLoop s =
     (let s1 = (if pnpServiceConnectionStatus (st s) \<noteq> PNP_SERVICE_CONNECTED
                then PNP_SERVICE_CONNECT s else s) in
      if pnpServiceConnectionStatus (st s1) = PNP_SERVICE_CONNECTED
      then s1\<lparr>roomPending := Suc (roomPending s1)\<rparr>
      else setTimeout CB_discoveryLoop (discoveryLoopPause (st s1)) s1)"

text \<open>The discovery loop from the answer of the room query on.\<close>

definition discoveryLoop_resume :: "room_result \<Rightarrow> sys \<Rightarrow> sys" where
  "discoveryLoop_resume r s =
     (case r of
        RoomRaises \<Rightarrow> discoveryLoop_catch s
      | RoomMembers None \<Rightarrow> discoveryLoop_catch s
      | RoomMembers (Some peerIds) \<Rightarrow>
          (case discoverRemotePeerIds peerIds s of
             (remotePeerIds, s1) \<Rightarrow> commit_PEER_DISCOVERING_DONE remotePeerIds s1))"

definition PEER_DISCOVER :: "sys \<Rightarrow> sys" where
  "PEER_DISCOVER s = discoveryLoop (commit_PEER_DISCOVERING s)"

subsection \<open>Connection negotiation\<close>

definition handlePeerConnectOfferTimeout :: "nat \<Rightarrow> string \<Rightarrow> sys \<Rightarrow> sys" where
  "handlePeerConnectOfferTimeout c remoteId s =
     (case peerConnection (st s) of
        None \<Rightarrow> HANDLE_PEER_CONNECTION_ERROR c msg_offer_expired s
      | Some c' \<Rightarrow>
          (case conn_close c' s of
             None \<Rightarrow> s
           | Some s1 \<Rightarrow> HANDLE_PEER_CONNECTION_ERROR c msg_offer_expired s1))"

text \<open>
  One round of \<open>peerConnectLoop\<close>. With the relay session connected it commits
  PEER_CONNECTING, asks the session for a connection object (\<open>peer.connect\<close>, which
  raises when \<open>state.peer\<close> is undefined), arms the offer timer and wires the
  connection.
\<close>

definition peerConnectLoop :: "string \<Rightarrow> sys \<Rightarrow> sys" where
  "peerConnectLoop remoteId s =
     (if pnpServiceConnectionStatus (st s) \<noteq> PNP_SERVICE_CONNECTED then
        (let s1 = PNP_SERVICE_CONNECT s in
         setTimeout (CB_peerConnectLoop remoteId) (peerConnectLoopPause (st s1)) s1)
      else
        (let s1 = commit_PEER_CONNECTING s in
         case peer (st s1) of
           None \<Rightarrow> s1
         | Some a \<Rightarrow>
             (let c = length (conns s1);
                  outgoing = \<lparr>conn_peer = remoteId, conn_closed = False,
                              close_raises = False, conn_wired = False, offerTimer = None\<rparr>;
                  s2 = s1\<lparr>conns := conns s1 @ [outgoing]\<rparr>;
                  peerConnectOfferTimer = length (timers s2);
                  s3 = setTimeout (CB_handlePeerConnectOfferTimeout c remoteId)
                         (peerConnectOfferTimeout (st s2)) s2
              in setPeerConnectionHandlers c (Some peerConnectOfferTimer) s3)))"

definition PEER_CONNECT :: "string \<Rightarrow> sys \<Rightarrow> sys" where
  "PEER_CONNECT remoteId s =
     (if peerConnectionStatus (st s) = PEER_CONNECTING \<or>
         peerConnectionStatus (st s) = PEER_CONNECTED then s
      else
        (case peerConnection (st s) of
           None \<Rightarrow> peerConnectLoop remoteId s
         | Some c \<Rightarrow>
             (case conn_close c s of
                None \<Rightarrow> s
              | Some s1 \<Rightarrow> peerConnectLoop remoteId s1)))"

subsection \<open>Authentication\<close>

text \<open>PEER_AUTHENTICATE up to the call of \<open>auth()\<close>.\<close>

definition PEER_AUTHENTICATE_start :: "nat \<Rightarrow> sys \<Rightarrow> sys" where
  "PEER_AUTHENTICATE_start c s =
     (let s1 = commit_PEER_AUTHENTICATING s;
          s2 = commit_USER_MESSAGE (msg_authenticating (peerOf s1 c)) s1;
          s3 = commit_EDGE_API EdgeAPI s2
      in s3\<lparr>authPending := authPending s3 @ [c]\<rparr>)"

text \<open>
  \<open>state.peerFetch.textDecode(response.content)\<close>: the decoded text, or nothing when
  the call raises, because \<open>state.peerFetch\<close> is undefined or the content does not
  decode.
\<close>

definition decoded :: "sys \<Rightarrow> response \<Rightarrow> string option" where
  "decoded s resp =
     (case peerFetch (st s) of None \<Rightarrow> None | Some pf \<Rightarrow> textDecode (content resp))"

text \<open>
  The value of \<open>authPassed\<close> after the \<open>try\<close> block: every exception leaves it
  false.
\<close>

definition authPassed :: "sys \<Rightarrow> auth_result \<Rightarrow> bool" where
  "authPassed s r =
     (case r of
        AuthRaises \<Rightarrow> False
      | AuthReturns None \<Rightarrow> False
      | AuthReturns (Some resp) \<Rightarrow>
          (case header resp of
             None \<Rightarrow> False
           | Some h \<Rightarrow>
               if status h = 200 then
                 (case decoded s resp of
                    None \<Rightarrow> False
                  | Some text \<Rightarrow> str_includes text ''Ambianic'')
               else False))"

text \<open>PEER_AUTHENTICATE from the answer of \<open>auth()\<close> on.\<close>

definition PEER_AUTHENTICATE_resume :: "nat \<Rightarrow> auth_result \<Rightarrow> sys \<Rightarrow> sys" where
  "PEER_AUTHENTICATE_resume c r s =
     (if authPassed s r then
        (let s1 = commit_PEER_CONNECTED c s in
         if remotePeerId (st s1) \<noteq> Some (peerOf s1 c)
         then commit_NEW_REMOTE_PEER_ID (peerOf s1 c) s1 else s1)
      else HANDLE_PEER_CONNECTION_ERROR c msg_auth_failed s)"

subsection \<open>Disconnecting and changing the remote peer\<close>

definition PEER_DISCONNECT :: "sys \<Rightarrow> sys" where
  "PEER_DISCONNECT s =
     (if peerConnectionStatus (st s) \<noteq> PEER_DISCONNECTED then
        (let s1 = commit_PEER_DISCONNECTING s;
             s2 = (case peerConnection (st s1) of
                     None \<Rightarrow> s1
                   | Some conn \<Rightarrow>
                       (case conn_close conn s1 of None \<Rightarrow> s1 | Some s' \<Rightarrow> s'))
         in commit_PEER_DISCONNECTED s2)
      else s)"

definition REMOVE_REMOTE_PEER_ID :: "sys \<Rightarrow> sys" where
  "REMOVE_REMOTE_PEER_ID s = commit_REMOTE_PEER_ID_REMOVED (PEER_DISCONNECT s)"

definition CHANGE_REMOTE_PEER_ID :: "string \<Rightarrow> sys \<Rightarrow> sys" where
  "CHANGE_REMOTE_PEER_ID remoteId s =
     PEER_CONNECT remoteId
       (commit_NEW_REMOTE_PEER_ID remoteId (REMOVE_REMOTE_PEER_ID s))"

subsection \<open>The step function\<close>

text \<open>
  One step is one handler run to completion: a command of the user interface, an event
  of a session or connection object that has its handlers installed, a pending timer
  that fires, or the answer to a request in flight. \<open>Conn_faulty\<close> is the transport
  putting a connection object into a state where its \<open>close()\<close> raises. A step that
  names an object, timer or request that does not exist changes nothing.
\<close>

datatype event =
  Cmd_INITIALIZE_PNP
  | Cmd_PEER_DISCOVER
  | Cmd_PEER_CONNECT string
  | Cmd_CHANGE_REMOTE_PEER_ID string
  | Cmd_PEER_DISCONNECT
  | Cmd_REMOVE_REMOTE_PEER_ID
  | Peer_open nat "string option"
  | Peer_disconnected nat
  | Peer_close nat
  | Peer_error nat
  | Peer_connection nat string
  | Conn_open nat
  | Conn_close nat
  | Conn_error nat
  | Conn_faulty nat
  | Timer_fires nat
  | Room_reply room_result
  | Auth_reply nat auth_result

definition run_callback :: "callback \<Rightarrow> sys \<Rightarrow> sys" where
  "run_callback cb s =
     (case cb of
        CB_PNP_SERVICE_CONNECT \<Rightarrow> PNP_SERVICE_CONNECT s
      | CB_discoveryLoop \<Rightarrow> discoveryLoop s
      | CB_peerConnectLoop rid \<Rightarrow> peerConnectLoop rid s
      | CB_handlePeerConnectOfferTimeout c rid \<Rightarrow> handlePeerConnectOfferTimeout c rid s
      | CB_PEER_AUTHENTICATE c \<Rightarrow> PEER_AUTHENTICATE_start c s)"

definition peer_event :: "nat \<Rightarrow> (peer_obj \<Rightarrow> peer_obj) \<Rightarrow> (sys \<Rightarrow> sys) \<Rightarrow> sys \<Rightarrow> sys" where
  "peer_event a lib handler s =
     (case lookup (peers s) a of
        None \<Rightarrow> s
      | Some po \<Rightarrow>
          if peer_wired po then handler (s\<lparr>peers := (peers s)[a := lib po]\<rparr>) else s)"

definition conn_event :: "nat \<Rightarrow> (conn_obj \<Rightarrow> conn_obj) \<Rightarrow> (sys \<Rightarrow> sys) \<Rightarrow> sys \<Rightarrow> sys" where
  "conn_event c lib handler s =
     (case lookup (conns s) c of
        None \<Rightarrow> s
      | Some co \<Rightarrow>
          if conn_wired co then handler (s\<lparr>conns := (conns s)[c := lib co]\<rparr>) else s)"

fun step :: "event \<Rightarrow> sys \<Rightarrow> sys" where
  "step Cmd_INITIALIZE_PNP s = INITIALIZE_PNP s"
| "step Cmd_PEER_DISCOVER s = PEER_DISCOVER s"
| "step (Cmd_PEER_CONNECT remoteId) s = PEER_CONNECT remoteId s"
| "step (Cmd_CHANGE_REMOTE_PEER_ID remoteId) s = CHANGE_REMOTE_PEER_ID remoteId s"
| "step Cmd_PEER_DISCONNECT s = PEER_DISCONNECT s"
| "step Cmd_REMOVE_REMOTE_PEER_ID s = REMOVE_REMOTE_PEER_ID s"
| "step (Peer_open a i) s =
     peer_event a (\<lambda>po. po\<lparr>peer_id := i, peer_open := True\<rparr>) (on_peer_open a) s"
| "step (Peer_disconnected a) s =
     peer_event a (\<lambda>po. po\<lparr>peer_open := False\<rparr>) on_peer_disconnected s"
| "step (Peer_close a) s =
     peer_event a (\<lambda>po. po\<lparr>peer_open := False\<rparr>) on_peer_close s"
| "step (Peer_error a) s = peer_event a (\<lambda>po. po) on_peer_error s"
| "step (Peer_connection a remote) s =
     peer_event a (\<lambda>po. po) (on_peer_connection remote) s"
| "step (Conn_open c) s = conn_event c (\<lambda>co. co) (on_conn_open c) s"
| "step (Conn_close c) s =
     conn_event c (\<lambda>co. co\<lparr>conn_closed := True\<rparr>) (on_conn_close c) s"
| "step (Conn_error c) s = conn_event c (\<lambda>co. co) (on_conn_error c) s"
| "step (Conn_faulty c) s =
     conn_event c (\<lambda>co. co\<lparr>close_raises := True\<rparr>) (\<lambda>s. s) s"
| "step (Timer_fires t) s =
     (case lookup (timers s) t of
        None \<Rightarrow> s
      | Some tm \<Rightarrow>
          if pending tm
          then run_callback (callback tm) (s\<lparr>timers := (timers s)[t := tm\<lparr>pending := False\<rparr>]\<rparr>)
          else s)"
| "step (Room_reply r) s =
     (if roomPending s > 0
      then discoveryLoop_resume r (s\<lparr>roomPending := roomPending s - 1\<rparr>)
      else s)"
| "step (Auth_reply c r) s =
     (if c \<in> set (authPending s)
      then PEER_AUTHENTICATE_resume c r (s\<lparr>authPending := remove1 c (authPending s)\<rparr>)
      else s)"

fun run :: "event list \<Rightarrow> sys \<Rightarrow> sys" where
  "run [] s = s"
| "run (e # es) s = run es (step e s)"

text \<open>The states the store can be in: any durable storage at load, then any steps.\<close>

inductive reachable :: "sys \<Rightarrow> bool" where
  reachable_initial: "reachable (initial ls)"
| reachable_step: "reachable s \<Longrightarrow> reachable (step e s)"

subsection \<open>Projections and the invariant of the handles\<close>

text \<open>The persisted remote peer id: the copy in the state and durable storage.\<close>

definition persisted :: "sys \<Rightarrow> string option \<times> (string \<Rightarrow> string option)" where
  "persisted s = (remotePeerId (st s), localStorage s)"

text \<open>The status of the peer connection together with the three handles.\<close>

definition core ::
  "sys \<Rightarrow> peer_connection_status \<times> nat option \<times> nat option \<times> edge_api option" where
  "core s =
     (peerConnectionStatus (st s), peerConnection (st s), peerFetch (st s), edgeAPI (st s))"

definition handles_invariant :: "sys \<Rightarrow> bool" where
  "handles_invariant s \<longleftrightarrow>
     (peerConnectionStatus (st s) = PEER_CONNECTED \<longrightarrow>
        peerConnection (st s) \<noteq> None \<and> peerFetch (st s) \<noteq> None)
     \<and> (peerConnectionStatus (st s) = PEER_AUTHENTICATING \<longrightarrow> edgeAPI (st s) \<noteq> None)
     \<and> (peerConnectionStatus (st s) = PEER_DISCONNECTED \<longrightarrow>
        peerConnection (st s) = None \<and> edgeAPI (st s) = None)"

subsection \<open>Example runs\<close>

text \<open>
  A user interface with identity \<open>ui\<close> and empty durable storage connects to the relay,
  then to the remote peer \<open>edge\<close>: the connection object 0 is created and the offer
  timer 0 armed (\<open>ex_connecting\<close>); the connection opens (\<open>ex_opened\<close>); a second
  later authentication starts (\<open>ex_authenticating\<close>); the remote peer answers with the
  trust marker (\<open>ex_connected\<close>). In \<open>ex_retry\<close> the connection then reports an error and
  the user connects again. In \<open>ex_discovering\<close> the user starts a discovery round instead.
\<close>

definition marked_response :: response where
  "marked_response =
     \<lparr>header = Some (Header 200), content = Content (Some ''Ambianic Edge'')\<rparr>"

definition unmarked_response :: response where
  "unmarked_response =
     \<lparr>header = Some (Header 200), content = Content (Some ''no-marker'')\<rparr>"

definition ex_connecting :: sys where
  "ex_connecting =
     run [Cmd_INITIALIZE_PNP, Peer_open 0 (Some ''ui''), Cmd_PEER_CONNECT ''edge'']
       (initial Map.empty)"

definition ex_opened :: sys where
  "ex_opened = step (Conn_open 0) ex_connecting"

definition ex_authenticating :: sys where
  "ex_authenticating = step (Timer_fires 1) ex_opened"

definition ex_connected :: sys where
  "ex_connected = step (Auth_reply 0 (AuthReturns (Some marked_response))) ex_authenticating"

definition ex_retry :: sys where
  "ex_retry = run [Conn_error 0, Cmd_PEER_CONNECT ''edge''] ex_connected"

definition ex_discovering :: sys where
  "ex_discovering =
     run [Cmd_INITIALIZE_PNP, Peer_open 0 (Some ''ui''), Cmd_PEER_DISCOVER] (initial Map.empty)"

section \<open>Auxiliary facts\<close>

subsection \<open>Unfolding the mutations\<close>

lemmas commit_defs =
  set_status_def commit_PEER_NEW_INSTANCE_def commit_PEER_DISCONNECTED_def
  commit_PEER_DISCOVERING_DONE_def commit_PEER_DISCOVERING_def
  commit_PEER_DISCOVERING_CANCELLED_def commit_PEER_DISCOVERING_ERROR_def
  commit_PEER_DISCOVERING_OFF_def commit_PEER_CONNECTING_def
  commit_PEER_DISCONNECTING_def commit_PEER_AUTHENTICATING_def commit_PEER_CONNECTED_def
  commit_PEER_CONNECTION_ERROR_def commit_PNP_SERVICE_DISCONNECTED_def
  commit_PNP_SERVICE_CONNECTING_def commit_PNP_SERVICE_CONNECTED_def
  commit_USER_MESSAGE_def commit_NEW_PEER_ID_def commit_NEW_REMOTE_PEER_ID_def
  commit_REMOTE_PEER_ID_REMOVED_def commit_PEER_FETCH_def commit_EDGE_API_def

lemma lookup_update_same: "lookup xs i = Some x \<Longrightarrow> xs[i := x] = xs"
  by (auto simp: lookup_def split: if_splits)

subsection \<open>Which operations leave the persisted id alone\<close>

lemma persisted_commit [simp]:
  "persisted (set_status x s) = persisted s"
  "persisted (commit_PEER_NEW_INSTANCE a s) = persisted s"
  "persisted (commit_PEER_DISCONNECTED s) = persisted s"
  "persisted (commit_PEER_DISCOVERING_DONE ids s) = persisted s"
  "persisted (commit_PEER_DISCOVERING s) = persisted s"
  "persisted (commit_PEER_DISCOVERING_ERROR s) = persisted s"
  "persisted (commit_PEER_CONNECTING s) = persisted s"
  "persisted (commit_PEER_DISCONNECTING s) = persisted s"
  "persisted (commit_PEER_AUTHENTICATING s) = persisted s"
  "persisted (commit_PEER_CONNECTED c s) = persisted s"
  "persisted (commit_PEER_CONNECTION_ERROR s) = persisted s"
  "persisted (commit_PNP_SERVICE_DISCONNECTED s) = persisted s"
  "persisted (commit_PNP_SERVICE_CONNECTING s) = persisted s"
  "persisted (commit_PNP_SERVICE_CONNECTED s) = persisted s"
  "persisted (commit_USER_MESSAGE m s) = persisted s"
  "persisted (commit_NEW_PEER_ID i s) = persisted s"
  "persisted (commit_PEER_FETCH pf s) = persisted s"
  "persisted (commit_EDGE_API api s) = persisted s"
  by (simp_all add: persisted_def commit_defs Let_def)

lemma persisted_fields [simp]:
  "persisted (s\<lparr>peers := ps\<rparr>) = persisted s"
  "persisted (s\<lparr>conns := cs\<rparr>) = persisted s"
  "persisted (s\<lparr>timers := ts\<rparr>) = persisted s"
  "persisted (s\<lparr>authPending := ap\<rparr>) = persisted s"
  "persisted (s\<lparr>roomPending := n\<rparr>) = persisted s"
  "persisted (s\<lparr>st := (st s)\<lparr>peer := p\<rparr>\<rparr>) = persisted s"
  by (simp_all add: persisted_def)

lemma persisted_timers [simp]:
  "persisted (setTimeout cb d s) = persisted s"
  "persisted (clearTimeout t s) = persisted s"
  by (simp_all add: setTimeout_def clearTimeout_def split: option.splits)

lemma persisted_conn_close: "conn_close c s = Some s' \<Longrightarrow> persisted s' = persisted s"
  by (auto simp: conn_close_def split: option.splits if_splits)

lemma persisted_service [simp]:
  "persisted (HANDLE_PEER_CONNECTION_ERROR c m s) = persisted s"
  "persisted (PNP_SERVICE_RECONNECT s) = persisted s"
  "persisted (setPnPServiceConnectionHandlers s) = persisted s"
  by (simp_all add: HANDLE_PEER_CONNECTION_ERROR_def PNP_SERVICE_RECONNECT_def
      setPnPServiceConnectionHandlers_def Let_def split: option.splits)

lemma persisted_service_connect [simp]:
  "persisted (PNP_SERVICE_CONNECT s) = persisted s"
  "persisted (INITIALIZE_PNP s) = persisted s"
  by (simp_all add: PNP_SERVICE_CONNECT_def INITIALIZE_PNP_def Let_def)

lemma persisted_handlers [simp]:
  "persisted (setPeerConnectionHandlers c t s) = persisted s"
  "persisted (on_conn_open c s) = persisted s"
  "persisted (on_conn_close c s) = persisted s"
  "persisted (on_conn_error c s) = persisted s"
  "persisted (on_peer_open a s) = persisted s"
  "persisted (on_peer_disconnected s) = persisted s"
  "persisted (on_peer_close s) = persisted s"
  "persisted (on_peer_error s) = persisted s"
  by (simp_all add: setPeerConnectionHandlers_def on_conn_open_def on_conn_close_def
      on_conn_error_def on_peer_open_def on_peer_disconnected_def on_peer_close_def
      on_peer_error_def Let_def split: option.splits)

lemma persisted_on_peer_connection [simp]:
  "persisted (on_peer_connection remote s) = persisted s"
  by (simp add: on_peer_connection_def Let_def)

lemma persisted_discovery [simp]:
  "persisted (discoveryLoop s) = persisted s"
  "persisted (discoveryLoop_resume r s) = persisted s"
  "persisted (PEER_DISCOVER s) = persisted s"
  by (simp_all add: discoveryLoop_def discoveryLoop_resume_def discoveryLoop_catch_def
      discoverRemotePeerIds_def PEER_DISCOVER_def Let_def
      split: room_result.splits option.splits)

lemma persisted_connect [simp]:
  "persisted (handlePeerConnectOfferTimeout c remoteId s) = persisted s"
  "persisted (peerConnectLoop remoteId s) = persisted s"
  "persisted (PEER_CONNECT remoteId s) = persisted s"
  "persisted (PEER_AUTHENTICATE_start c s) = persisted s"
  "persisted (PEER_DISCONNECT s) = persisted s"
  by (auto simp: handlePeerConnectOfferTimeout_def peerConnectLoop_def PEER_CONNECT_def
      PEER_AUTHENTICATE_start_def PEER_DISCONNECT_def Let_def persisted_conn_close
      split: option.splits)

lemma persisted_events [simp]:
  "persisted (peer_event a lib h s) = (case lookup (peers s) a of None \<Rightarrow> persisted s
      | Some po \<Rightarrow> if peer_wired po then persisted (h (s\<lparr>peers := (peers s)[a := lib po]\<rparr>)) else persisted s)"
  "persisted (conn_event c lib' h s) = (case lookup (conns s) c of None \<Rightarrow> persisted s
      | Some co \<Rightarrow> if conn_wired co then persisted (h (s\<lparr>conns := (conns s)[c := lib' co]\<rparr>)) else persisted s)"
  by (simp_all add: peer_event_def conn_event_def split: option.splits)

lemma persisted_run_callback [simp]: "persisted (run_callback cb s) = persisted s"
  by (simp add: run_callback_def split: callback.splits)

lemma decoded_authPending [simp]: "decoded (s\<lparr>authPending := ap\<rparr>) resp = decoded s resp"
  by (simp add: decoded_def)

lemma authPassed_authPending [simp]: "authPassed (s\<lparr>authPending := ap\<rparr>) r = authPassed s r"
  by (simp add: authPassed_def split: auth_result.splits option.splits)

lemma peerOf_authPending [simp]: "peerOf (s\<lparr>authPending := ap\<rparr>) c = peerOf s c"
  by (simp add: peerOf_def)

lemma peerOf_commit_PEER_CONNECTED [simp]: "peerOf (commit_PEER_CONNECTED c' s) c = peerOf s c"
  by (simp add: peerOf_def commit_defs)

lemma persisted_resume:
  "persisted (PEER_AUTHENTICATE_resume c r s) =
     (if authPassed s r \<and> remotePeerId (st s) \<noteq> Some (peerOf s c)
      then (Some (peerOf s c), (localStorage s)(remotePeerIdKey \<mapsto> peerOf s c))
      else persisted s)"
  by (simp add: PEER_AUTHENTICATE_resume_def Let_def)
     (simp add: persisted_def commit_defs)

lemma persisted_remove:
  "persisted (REMOVE_REMOTE_PEER_ID s) = (None, (localStorage s)(remotePeerIdKey := None))"
proof -
  have "persisted (PEER_DISCONNECT s) = persisted s" by simp
  then show ?thesis
    by (simp add: REMOVE_REMOTE_PEER_ID_def persisted_def commit_defs)
qed

lemma persisted_change:
  "persisted (CHANGE_REMOTE_PEER_ID remoteId s) =
     (Some remoteId, (localStorage s)(remotePeerIdKey \<mapsto> remoteId))"
proof -
  have "persisted (commit_NEW_REMOTE_PEER_ID remoteId (REMOVE_REMOTE_PEER_ID s)) =
          (Some remoteId, (localStorage s)(remotePeerIdKey \<mapsto> remoteId))"
    using persisted_remove [of s] by (simp add: persisted_def commit_defs)
  then show ?thesis by (simp add: CHANGE_REMOTE_PEER_ID_def)
qed

lemma persisted_step:
  "persisted (step e s) =
     (case e of
        Cmd_CHANGE_REMOTE_PEER_ID remoteId \<Rightarrow>
          (Some remoteId, (localStorage s)(remotePeerIdKey \<mapsto> remoteId))
      | Cmd_REMOVE_REMOTE_PEER_ID \<Rightarrow> (None, (localStorage s)(remotePeerIdKey := None))
      | Auth_reply c r \<Rightarrow>
          if c \<in> set (authPending s) \<and> authPassed s r \<and> remotePeerId (st s) \<noteq> Some (peerOf s c)
          then (Some (peerOf s c), (localStorage s)(remotePeerIdKey \<mapsto> peerOf s c))
          else persisted s
      | _ \<Rightarrow> persisted s)"
  by (cases e)
     (simp_all add: persisted_change persisted_remove persisted_resume
       split: option.splits)

lemma storage_sync_step:
  assumes "remotePeerId (st s) = localStorage s remotePeerIdKey"
  shows "remotePeerId (st (step e s)) = localStorage (step e s) remotePeerIdKey"
proof -
  have "fst (persisted (step e s)) = snd (persisted (step e s)) remotePeerIdKey"
    using assms unfolding persisted_step
    by (cases e) (auto simp: persisted_def)
  then show ?thesis by (simp add: persisted_def)
qed

lemma storage_sync: "reachable s \<Longrightarrow> remotePeerId (st s) = localStorage s remotePeerIdKey"
proof (induction rule: reachable.induct)
  case (reachable_initial ls)
  show ?case by (simp add: initial_def initial_state_def)
next
  case (reachable_step s e)
  from reachable_step.IH show ?case by (rule storage_sync_step)
qed

lemma reachable_run: "reachable s \<Longrightarrow> reachable (run es s)"
  by (induction es arbitrary: s) (auto intro: reachable_step)

subsection \<open>Authentication\<close>

lemma start_fields:
  "st (PEER_AUTHENTICATE_start c s) =
     (st s)\<lparr>peerConnectionStatus := PEER_AUTHENTICATING,
            userMessage := msg_authenticating (peerOf s c), edgeAPI := Some EdgeAPI\<rparr>"
  "statusLog (PEER_AUTHENTICATE_start c s) = statusLog s @ [PEER_AUTHENTICATING]"
  "localStorage (PEER_AUTHENTICATE_start c s) = localStorage s"
  "conns (PEER_AUTHENTICATE_start c s) = conns s"
  by (simp_all add: PEER_AUTHENTICATE_start_def Let_def commit_defs peerOf_def)

lemma decoded_start [simp]: "decoded (PEER_AUTHENTICATE_start c s) resp = decoded s resp"
  by (simp add: decoded_def start_fields)

lemma authPassed_iff:
  "authPassed s r \<longleftrightarrow>
     (\<exists>resp h text. r = AuthReturns (Some resp) \<and> header resp = Some h \<and> status h = 200
        \<and> decoded s resp = Some text \<and> str_includes text ''Ambianic'')"
  by (auto simp: authPassed_def split: auth_result.splits option.splits)

subsection \<open>Status and handles under each operation\<close>

lemma core_commit [simp]:
  "core (commit_PEER_NEW_INSTANCE a s) = core s"
  "core (commit_PEER_DISCOVERING_DONE ids s) = core s"
  "core (commit_PEER_DISCOVERING s) = core s"
  "core (commit_PEER_DISCOVERING_ERROR s) = core s"
  "core (commit_PNP_SERVICE_DISCONNECTED s) = core s"
  "core (commit_PNP_SERVICE_CONNECTING s) = core s"
  "core (commit_PNP_SERVICE_CONNECTED s) = core s"
  "core (commit_USER_MESSAGE m s) = core s"
  "core (commit_NEW_PEER_ID i s) = core s"
  "core (commit_NEW_REMOTE_PEER_ID i s) = core s"
  "core (commit_REMOTE_PEER_ID_REMOVED s) = core s"
  by (simp_all add: core_def commit_defs)

lemma core_fields [simp]:
  "core (s\<lparr>peers := ps\<rparr>) = core s"
  "core (s\<lparr>conns := cs\<rparr>) = core s"
  "core (s\<lparr>timers := ts\<rparr>) = core s"
  "core (s\<lparr>authPending := ap\<rparr>) = core s"
  "core (s\<lparr>roomPending := n\<rparr>) = core s"
  "core (s\<lparr>st := (st s)\<lparr>peer := p\<rparr>\<rparr>) = core s"
  by (simp_all add: core_def)

lemma core_timers [simp]:
  "core (setTimeout cb d s) = core s"
  "core (clearTimeout t s) = core s"
  by (simp_all add: setTimeout_def clearTimeout_def split: option.splits)

lemma core_conn_close: "conn_close c s = Some s' \<Longrightarrow> core s' = core s"
  by (auto simp: conn_close_def split: option.splits if_splits)

lemma core_service [simp]:
  "core (PNP_SERVICE_RECONNECT s) = core s"
  "core (setPnPServiceConnectionHandlers s) = core s"
  "core (setPeerConnectionHandlers c t s) = core s"
  "core (on_peer_open a s) = core s"
  "core (on_peer_disconnected s) = core s"
  "core (on_peer_close s) = core s"
  by (simp_all add: PNP_SERVICE_RECONNECT_def setPnPServiceConnectionHandlers_def
      setPeerConnectionHandlers_def on_peer_open_def on_peer_disconnected_def
      on_peer_close_def Let_def split: option.splits)

lemma core_service_connect [simp]:
  "core (PNP_SERVICE_CONNECT s) = core s"
  "core (INITIALIZE_PNP s) = core s"
  by (simp_all add: PNP_SERVICE_CONNECT_def INITIALIZE_PNP_def Let_def)

lemma core_discovery [simp]:
  "core (discoveryLoop s) = core s"
  "core (discoveryLoop_resume r s) = core s"
  "core (PEER_DISCOVER s) = core s"
  by (simp_all add: discoveryLoop_def discoveryLoop_resume_def discoveryLoop_catch_def
      discoverRemotePeerIds_def PEER_DISCOVER_def Let_def
      split: room_result.splits option.splits)

lemma core_status [simp]:
  "core (set_status x s) = (x, snd (core s))"
  "core (commit_PEER_DISCONNECTED s) = (PEER_DISCONNECTED, None, None, None)"
  "core (commit_PEER_CONNECTED c s) = (PEER_CONNECTED, Some c, snd (snd (core s)))"
  "core (commit_PEER_FETCH pf s) = (fst (core s), fst (snd (core s)), Some pf, snd (snd (snd (core s))))"
  "core (commit_EDGE_API api s) = (fst (core s), fst (snd (core s)), fst (snd (snd (core s))), Some api)"
  by (simp_all add: core_def commit_defs Let_def)

subsection \<open>The invariant is kept by every step\<close>

lemma invariant_alt:
  "handles_invariant s \<longleftrightarrow>
     (case core s of (x, pc, pf, api) \<Rightarrow>
        (x = PEER_CONNECTED \<longrightarrow> pc \<noteq> None \<and> pf \<noteq> None)
        \<and> (x = PEER_AUTHENTICATING \<longrightarrow> api \<noteq> None)
        \<and> (x = PEER_DISCONNECTED \<longrightarrow> pc = None \<and> api = None))"
  by (simp add: handles_invariant_def core_def)

lemma invariant_error: "handles_invariant s \<Longrightarrow> handles_invariant (HANDLE_PEER_CONNECTION_ERROR c m s)"
  by (simp add: invariant_alt HANDLE_PEER_CONNECTION_ERROR_def commit_PEER_CONNECTION_ERROR_def
      split: prod.splits)

lemma invariant_conn_handlers:
  assumes "handles_invariant s"
  shows "handles_invariant (on_conn_open c s)" "handles_invariant (on_conn_close c s)"
    "handles_invariant (on_conn_error c s)" "handles_invariant (on_peer_error s)"
    "handles_invariant (on_peer_connection remote s)"
  using assms
  by (auto simp: invariant_alt on_conn_open_def on_conn_close_def on_conn_error_def
      on_peer_error_def on_peer_connection_def HANDLE_PEER_CONNECTION_ERROR_def
      commit_PEER_CONNECTION_ERROR_def commit_PEER_CONNECTING_def Let_def
      split: prod.splits option.splits)

lemma invariant_connect:
  assumes "handles_invariant s"
  shows "handles_invariant (peerConnectLoop remoteId s)"
    "handles_invariant (handlePeerConnectOfferTimeout c remoteId s)"
    "handles_invariant (PEER_CONNECT remoteId s)"
    "handles_invariant (PEER_DISCONNECT s)"
    "handles_invariant (PEER_AUTHENTICATE_start c s)"
  using assms
  by (auto simp: invariant_alt peerConnectLoop_def handlePeerConnectOfferTimeout_def
      PEER_CONNECT_def PEER_DISCONNECT_def PEER_AUTHENTICATE_start_def
      HANDLE_PEER_CONNECTION_ERROR_def
      commit_PEER_CONNECTION_ERROR_def commit_PEER_CONNECTING_def
      commit_PEER_DISCONNECTING_def commit_PEER_AUTHENTICATING_def Let_def
      dest!: core_conn_close
      split: prod.splits option.splits)

lemma authPassed_peerFetch: "authPassed s r \<Longrightarrow> peerFetch (st s) \<noteq> None"
  by (auto simp: authPassed_iff decoded_def split: option.splits)

lemma invariant_resume:
  assumes "handles_invariant s"
  shows "handles_invariant (PEER_AUTHENTICATE_resume c r s)"
proof (cases "authPassed s r")
  case True
  then have "peerFetch (st s) \<noteq> None" by (rule authPassed_peerFetch)
  then have "handles_invariant (commit_PEER_CONNECTED c s)"
    by (simp add: handles_invariant_def commit_defs)
  then show ?thesis
    using True by (simp add: PEER_AUTHENTICATE_resume_def Let_def invariant_alt)
next
  case False
  then show ?thesis
    using assms by (simp add: PEER_AUTHENTICATE_resume_def invariant_error)
qed

lemma invariant_remove:
  assumes "handles_invariant s"
  shows "handles_invariant (REMOVE_REMOTE_PEER_ID s)"
    "handles_invariant (CHANGE_REMOTE_PEER_ID remoteId s)"
proof -
  have d: "handles_invariant (PEER_DISCONNECT s)"
    using assms by (rule invariant_connect)
  then show r: "handles_invariant (REMOVE_REMOTE_PEER_ID s)"
    by (simp add: REMOVE_REMOTE_PEER_ID_def invariant_alt)
  then have "handles_invariant (commit_NEW_REMOTE_PEER_ID remoteId (REMOVE_REMOTE_PEER_ID s))"
    by (simp add: invariant_alt)
  then show "handles_invariant (CHANGE_REMOTE_PEER_ID remoteId s)"
    unfolding CHANGE_REMOTE_PEER_ID_def by (rule invariant_connect)
qed

lemma invariant_run_callback:
  assumes "handles_invariant s"
  shows "handles_invariant (run_callback cb s)"
proof (cases cb)
  case CB_PNP_SERVICE_CONNECT
  then show ?thesis using assms by (simp add: run_callback_def invariant_alt)
next
  case CB_discoveryLoop
  then show ?thesis using assms by (simp add: run_callback_def invariant_alt)
qed (simp_all add: run_callback_def invariant_connect assms)

lemma invariant_field_updates:
  assumes "handles_invariant s"
  shows "handles_invariant (s\<lparr>peers := ps\<rparr>)" "handles_invariant (s\<lparr>conns := cs\<rparr>)"
    "handles_invariant (s\<lparr>timers := ts\<rparr>)" "handles_invariant (s\<lparr>authPending := ap\<rparr>)"
    "handles_invariant (s\<lparr>roomPending := n\<rparr>)"
  using assms by (simp_all add: invariant_alt)

lemma invariant_unchanged:
  assumes "handles_invariant s"
  shows "handles_invariant (INITIALIZE_PNP s)" "handles_invariant (PEER_DISCOVER s)"
    "handles_invariant (on_peer_open a s)" "handles_invariant (on_peer_disconnected s)"
    "handles_invariant (on_peer_close s)" "handles_invariant (discoveryLoop_resume r s)"
  using assms by (simp_all add: invariant_alt)

lemma invariant_step:
  assumes "handles_invariant s"
  shows "handles_invariant (step e s)"
proof (cases e)
  case (Timer_fires t)
  then show ?thesis
    using assms
    by (simp add: invariant_run_callback invariant_field_updates split: option.splits)
next
  case (Auth_reply c r)
  then show ?thesis
    using assms by (simp add: invariant_resume invariant_field_updates)
next
  case (Room_reply r)
  then show ?thesis
    using assms by (simp add: invariant_unchanged invariant_field_updates)
qed (simp_all add: assms invariant_connect invariant_conn_handlers invariant_remove
       invariant_unchanged invariant_field_updates peer_event_def conn_event_def
       split: option.splits)

lemma invariant_reachable: "reachable s \<Longrightarrow> handles_invariant s"
proof (induction rule: reachable.induct)
  case (reachable_initial ls)
  show ?case by (simp add: handles_invariant_def initial_def initial_state_def)
next
  case (reachable_step s e)
  from reachable_step.IH show ?case by (rule invariant_step)
qed

subsection \<open>The substring test\<close>

lemma starts_with_iff: "starts_with cs ps \<longleftrightarrow> (\<exists>b. cs = ps @ b)"
  by (induction cs ps rule: starts_with.induct) auto

lemma str_includes_iff: "str_includes cs pat \<longleftrightarrow> (\<exists>a b. cs = a @ pat @ b)"
proof (induction cs)
  case Nil
  show ?case by (cases pat) auto
next
  case (Cons c cs)
  show ?case
    by (auto simp: Cons starts_with_iff Cons_eq_append_conv simp del: starts_with.simps)
qed

subsection \<open>The offer timeout\<close>

lemma timers_offer_timeout:
  "timers (handlePeerConnectOfferTimeout c remoteId s) = timers s"
  by (auto simp: handlePeerConnectOfferTimeout_def HANDLE_PEER_CONNECTION_ERROR_def
      commit_defs conn_close_def split: option.splits)

lemma lookup_update_other: "i \<noteq> j \<Longrightarrow> lookup (xs[i := x]) j = lookup xs j"
  by (simp add: lookup_def)

lemma conns_offer_timeout:
  assumes "peerConnection (st s) \<noteq> Some c"
  shows "lookup (conns (handlePeerConnectOfferTimeout c remoteId s)) c = lookup (conns s) c"
  using assms
  by (auto simp: handlePeerConnectOfferTimeout_def HANDLE_PEER_CONNECTION_ERROR_def
      commit_defs conn_close_def lookup_update_other split: option.splits)

subsection \<open>Unfolding the actions\<close>

lemmas action_defs =
  HANDLE_PEER_CONNECTION_ERROR_def PNP_SERVICE_RECONNECT_def
  setPnPServiceConnectionHandlers_def peer_is_open_def PNP_SERVICE_CONNECT_def
  INITIALIZE_PNP_def setPeerConnectionHandlers_def on_conn_open_def on_conn_close_def
  on_conn_error_def on_peer_open_def on_peer_disconnected_def on_peer_close_def
  on_peer_error_def on_peer_connection_def discoverRemotePeerIds_def
  discoveryLoop_catch_def discoveryLoop_def discoveryLoop_resume_def PEER_DISCOVER_def
  handlePeerConnectOfferTimeout_def peerConnectLoop_def PEER_CONNECT_def
  PEER_AUTHENTICATE_start_def decoded_def authPassed_def PEER_AUTHENTICATE_resume_def
  PEER_DISCONNECT_def REMOVE_REMOTE_PEER_ID_def CHANGE_REMOTE_PEER_ID_def
  run_callback_def peer_event_def conn_event_def
  setTimeout_def clearTimeout_def conn_close_def peerOf_def lookup_def no_id_def
  initial_def initial_state_def Let_def

lemma ex_connecting_eq:
  "ex_connecting =
     \<lparr>st = \<lparr>peer = Some 0, myPeerId = Some ''ui'', remotePeerId = None, lastPeerId = None,
        discoveryStatus = PEER_DISCOVERING_OFF, discoveredPeers = Some [], userMessage = [],
        peerConnection = None, peerConnectionStatus = PEER_CONNECTING,
        pnpServiceConnectionStatus = PNP_SERVICE_CONNECTED, peerFetch = None, edgeAPI = None,
        discoveryLoopPause = 3000, peerConnectLoopPause = 500, peerConnectOfferTimeout = 15000\<rparr>,
      localStorage = Map.empty,
      peers = [\<lparr>peer_id = Some ''ui'', lastServerId = None, peer_open = True, peer_wired = True\<rparr>],
      conns = [\<lparr>conn_peer = ''edge'', conn_closed = False, close_raises = False,
                conn_wired = True, offerTimer = Some 0\<rparr>],
      timers = [\<lparr>callback = CB_handlePeerConnectOfferTimeout 0 ''edge'', delay = 15000,
                 pending = True\<rparr>],
      authPending = [], roomPending = 0, statusLog = [PEER_CONNECTING]\<rparr>"
  by (simp add: ex_connecting_def action_defs commit_defs)

subsection \<open>The example runs, evaluated\<close>

lemmas msg_defs =
  msg_still_looking_def msg_discovery_error_def msg_service_disconnected_def
  msg_service_closed_def msg_service_error_def msg_connection_closed_def
  msg_offer_expired_def msg_auth_failed_def msg_authenticating_def msg_connection_error_def

lemma ex_opened_eq:
  "ex_opened =
     \<lparr>st = \<lparr>peer = Some 0, myPeerId = Some ''ui'', remotePeerId = None, lastPeerId = None,
        discoveryStatus = PEER_DISCOVERING_OFF, discoveredPeers = Some [], userMessage = [],
        peerConnection = None, peerConnectionStatus = PEER_CONNECTING,
        pnpServiceConnectionStatus = PNP_SERVICE_CONNECTED, peerFetch = Some 0, edgeAPI = None,
        discoveryLoopPause = 3000, peerConnectLoopPause = 500, peerConnectOfferTimeout = 15000\<rparr>,
      localStorage = Map.empty,
      peers = [\<lparr>peer_id = Some ''ui'', lastServerId = None, peer_open = True, peer_wired = True\<rparr>],
      conns = [\<lparr>conn_peer = ''edge'', conn_closed = False, close_raises = False,
                conn_wired = True, offerTimer = Some 0\<rparr>],
      timers = [\<lparr>callback = CB_handlePeerConnectOfferTimeout 0 ''edge'', delay = 15000,
                 pending = False\<rparr>,
                \<lparr>callback = CB_PEER_AUTHENTICATE 0, delay = 1000, pending = True\<rparr>],
      authPending = [], roomPending = 0, statusLog = [PEER_CONNECTING]\<rparr>"
  by (simp add: ex_opened_def ex_connecting_eq action_defs commit_defs)

lemma ex_authenticating_eq:
  "ex_authenticating =
     \<lparr>st = \<lparr>peer = Some 0, myPeerId = Some ''ui'', remotePeerId = None, lastPeerId = None,
        discoveryStatus = PEER_DISCOVERING_OFF, discoveredPeers = Some [],
        userMessage = ''Authenticating remote peer: edge'',
        peerConnection = None, peerConnectionStatus = PEER_AUTHENTICATING,
        pnpServiceConnectionStatus = PNP_SERVICE_CONNECTED, peerFetch = Some 0,
        edgeAPI = Some EdgeAPI,
        discoveryLoopPause = 3000, peerConnectLoopPause = 500, peerConnectOfferTimeout = 15000\<rparr>,
      localStorage = Map.empty,
      peers = [\<lparr>peer_id = Some ''ui'', lastServerId = None, peer_open = True, peer_wired = True\<rparr>],
      conns = [\<lparr>conn_peer = ''edge'', conn_closed = False, close_raises = False,
                conn_wired = True, offerTimer = Some 0\<rparr>],
      timers = [\<lparr>callback = CB_handlePeerConnectOfferTimeout 0 ''edge'', delay = 15000,
                 pending = False\<rparr>,
                \<lparr>callback = CB_PEER_AUTHENTICATE 0, delay = 1000, pending = False\<rparr>],
      authPending = [0], roomPending = 0,
      statusLog = [PEER_CONNECTING, PEER_AUTHENTICATING]\<rparr>"
  by (simp add: ex_authenticating_def ex_opened_eq action_defs commit_defs msg_defs)

lemma ex_connected_eq:
  "ex_connected =
     \<lparr>st = \<lparr>peer = Some 0, myPeerId = Some ''ui'', remotePeerId = Some ''edge'',
        lastPeerId = None,
        discoveryStatus = PEER_DISCOVERING_OFF, discoveredPeers = Some [],
        userMessage = ''Authenticating remote peer: edge'',
        peerConnection = Some 0, peerConnectionStatus = PEER_CONNECTED,
        pnpServiceConnectionStatus = PNP_SERVICE_CONNECTED, peerFetch = Some 0,
        edgeAPI = Some EdgeAPI,
        discoveryLoopPause = 3000, peerConnectLoopPause = 500, peerConnectOfferTimeout = 15000\<rparr>,
      localStorage = [remotePeerIdKey \<mapsto> ''edge''],
      peers = [\<lparr>peer_id = Some ''ui'', lastServerId = None, peer_open = True, peer_wired = True\<rparr>],
      conns = [\<lparr>conn_peer = ''edge'', conn_closed = False, close_raises = False,
                conn_wired = True, offerTimer = Some 0\<rparr>],
      timers = [\<lparr>callback = CB_handlePeerConnectOfferTimeout 0 ''edge'', delay = 15000,
                 pending = False\<rparr>,
                \<lparr>callback = CB_PEER_AUTHENTICATE 0, delay = 1000, pending = False\<rparr>],
      authPending = [], roomPending = 0,
      statusLog = [PEER_CONNECTING, PEER_AUTHENTICATING, PEER_CONNECTED]\<rparr>"
  by (simp add: ex_connected_def ex_authenticating_eq marked_response_def action_defs
      commit_defs msg_defs)

lemma ex_retry_eq:
  "ex_retry =
     \<lparr>st = \<lparr>peer = Some 0, myPeerId = Some ''ui'', remotePeerId = Some ''edge'',
        lastPeerId = None,
        discoveryStatus = PEER_DISCOVERING_OFF, discoveredPeers = Some [],
        userMessage = ''Error in connection to remote peer ID: edge'',
        peerConnection = Some 0, peerConnectionStatus = PEER_CONNECTING,
        pnpServiceConnectionStatus = PNP_SERVICE_CONNECTED, peerFetch = Some 0,
        edgeAPI = Some EdgeAPI,
        discoveryLoopPause = 3000, peerConnectLoopPause = 500, peerConnectOfferTimeout = 15000\<rparr>,
      localStorage = [remotePeerIdKey \<mapsto> ''edge''],
      peers = [\<lparr>peer_id = Some ''ui'', lastServerId = None, peer_open = True, peer_wired = True\<rparr>],
      conns = [\<lparr>conn_peer = ''edge'', conn_closed = True, close_raises = False,
                conn_wired = True, offerTimer = Some 0\<rparr>,
               \<lparr>conn_peer = ''edge'', conn_closed = False, close_raises = False,
                conn_wired = True, offerTimer = Some 2\<rparr>],
      timers = [\<lparr>callback = CB_handlePeerConnectOfferTimeout 0 ''edge'', delay = 15000,
                 pending = False\<rparr>,
                \<lparr>callback = CB_PEER_AUTHENTICATE 0, delay = 1000, pending = False\<rparr>,
                \<lparr>callback = CB_handlePeerConnectOfferTimeout 1 ''edge'', delay = 15000,
                 pending = True\<rparr>],
      authPending = [], roomPending = 0,
      statusLog = [PEER_CONNECTING, PEER_AUTHENTICATING, PEER_CONNECTED,
                   PEER_CONNECTION_ERROR, PEER_CONNECTING]\<rparr>"
  by (simp add: ex_retry_def ex_connected_eq action_defs commit_defs msg_defs)

lemma ex_discovering_eq:
  "ex_discovering =
     \<lparr>st = \<lparr>peer = Some 0, myPeerId = Some ''ui'', remotePeerId = None, lastPeerId = None,
        discoveryStatus = PEER_DISCOVERING, discoveredPeers = Some [], userMessage = [],
        peerConnection = None, peerConnectionStatus = PEER_DISCONNECTED,
        pnpServiceConnectionStatus = PNP_SERVICE_CONNECTED, peerFetch = None, edgeAPI = None,
        discoveryLoopPause = 3000, peerConnectLoopPause = 500, peerConnectOfferTimeout = 15000\<rparr>,
      localStorage = Map.empty,
      peers = [\<lparr>peer_id = Some ''ui'', lastServerId = None, peer_open = True, peer_wired = True\<rparr>],
      conns = [], timers = [], authPending = [], roomPending = Suc 0, statusLog = []\<rparr>"
  by (simp add: ex_discovering_def action_defs commit_defs)

lemma reachable_examples:
  "reachable ex_connecting" "reachable ex_opened" "reachable ex_authenticating"
  "reachable ex_connected" "reachable ex_retry" "reachable ex_discovering"
proof -
  show 1: "reachable ex_connecting"
    unfolding ex_connecting_def by (rule reachable_run [OF reachable_initial])
  then show 2: "reachable ex_opened"
    unfolding ex_opened_def by (rule reachable_step)
  then show 3: "reachable ex_authenticating"
    unfolding ex_authenticating_def by (rule reachable_step)
  then show 4: "reachable ex_connected"
    unfolding ex_connected_def by (rule reachable_step)
  then show "reachable ex_retry"
    unfolding ex_retry_def by (rule reachable_run)
  show "reachable ex_discovering"
    unfolding ex_discovering_def by (rule reachable_run [OF reachable_initial])
qed

section \<open>The claims\<close>

subsection \<open>Reachable states in which a handle is missing or left over\<close>

text \<open>
  Authentication has started on connection 0 and the relay session then reports an
  error, a remote peer calls in and its connection opens, and only then the answer to
  the pending \<open>auth()\<close> arrives: the store is CONNECTED with no EdgeAPI instance.
\<close>

lemma connected_without_edgeAPI:
  "reachable (run [Peer_error 0, Peer_connection 0 ''other'', Conn_open 1,
                   Auth_reply 0 (AuthReturns (Some marked_response))] ex_authenticating)
   \<and> core (run [Peer_error 0, Peer_connection 0 ''other'', Conn_open 1,
                 Auth_reply 0 (AuthReturns (Some marked_response))] ex_authenticating)
       = (PEER_CONNECTED, Some 0, Some 1, None)"
proof -
  have "reachable (run [Peer_error 0, Peer_connection 0 ''other'', Conn_open 1,
                   Auth_reply 0 (AuthReturns (Some marked_response))] ex_authenticating)"
    by (rule reachable_run [OF reachable_examples(3)])
  moreover have "core (run [Peer_error 0, Peer_connection 0 ''other'', Conn_open 1,
                 Auth_reply 0 (AuthReturns (Some marked_response))] ex_authenticating)
       = (PEER_CONNECTED, Some 0, Some 1, None)"
    by (simp add: ex_authenticating_eq marked_response_def core_def action_defs commit_defs
        msg_defs del: core_status)
  ultimately show ?thesis by simp
qed

text \<open>
  The relay session reports an error between the opening of the connection and the
  start of authentication: the store is AUTHENTICATING with no PeerFetch wrapper.
\<close>

lemma authenticating_without_peerFetch:
  "reachable (run [Peer_error 0, Timer_fires 1] ex_opened)
   \<and> core (run [Peer_error 0, Timer_fires 1] ex_opened)
       = (PEER_AUTHENTICATING, None, None, Some EdgeAPI)"
proof -
  have "reachable (run [Peer_error 0, Timer_fires 1] ex_opened)"
    by (rule reachable_run [OF reachable_examples(2)])
  moreover have "core (run [Peer_error 0, Timer_fires 1] ex_opened)
       = (PEER_AUTHENTICATING, None, None, Some EdgeAPI)"
    by (simp add: ex_opened_eq core_def action_defs commit_defs msg_defs del: core_status)
  ultimately show ?thesis by simp
qed

text \<open>
  The user disconnects while the connection is being negotiated, and the connection
  opens afterwards: the store is DISCONNECTED with a PeerFetch wrapper.
\<close>

lemma disconnected_with_peerFetch:
  "reachable (run [Cmd_PEER_DISCONNECT, Conn_open 0] ex_connecting)
   \<and> core (run [Cmd_PEER_DISCONNECT, Conn_open 0] ex_connecting)
       = (PEER_DISCONNECTED, None, Some 0, None)"
proof -
  have "reachable (run [Cmd_PEER_DISCONNECT, Conn_open 0] ex_connecting)"
    by (rule reachable_run [OF reachable_examples(1)])
  moreover have "core (run [Cmd_PEER_DISCONNECT, Conn_open 0] ex_connecting)
       = (PEER_DISCONNECTED, None, Some 0, None)"
    by (simp add: ex_connecting_eq core_def action_defs commit_defs msg_defs del: core_status)
  ultimately show ?thesis by simp
qed

subsection \<open>C1: status and handles\<close>

text \<open>
  Claim C1 says that in every reachable state AUTHENTICATING or CONNECTED implies a
  connection object in \<open>state.peerConnection\<close> and both channel handles, and that
  DISCONNECTED implies all three cleared. The store assigns \<open>state.peerConnection\<close>
  only in the mutation PEER_CONNECTED, so the claim already fails in the state in which
  authentication waits for the answer of \<open>auth()\<close>.
\<close>

theorem authenticating_without_connection_object:
  "reachable ex_authenticating
   \<and> peerConnectionStatus (st ex_authenticating) = PEER_AUTHENTICATING
   \<and> peerConnection (st ex_authenticating) = None"
  using reachable_examples(3) by (simp add: ex_authenticating_eq)

text \<open>
  Claim C1, amended: in every reachable state, CONNECTED implies that
  \<open>state.peerConnection\<close> holds a connection object and that the PeerFetch wrapper
  exists; AUTHENTICATING implies that the EdgeAPI instance exists; DISCONNECTED implies
  that \<open>state.peerConnection\<close> and the EdgeAPI instance are cleared.
\<close>

theorem handles_in_reachable_states:
  assumes "reachable s"
  shows "(peerConnectionStatus (st s) = PEER_CONNECTED \<longrightarrow>
            peerConnection (st s) \<noteq> None \<and> peerFetch (st s) \<noteq> None)
       \<and> (peerConnectionStatus (st s) = PEER_AUTHENTICATING \<longrightarrow> edgeAPI (st s) \<noteq> None)
       \<and> (peerConnectionStatus (st s) = PEER_DISCONNECTED \<longrightarrow>
            peerConnection (st s) = None \<and> edgeAPI (st s) = None)"
  using invariant_reachable [OF assms] by (simp add: handles_invariant_def)

theorem handles_in_reachable_states_witness:
  "peerConnectionStatus (st ex_connected) = PEER_CONNECTED
   \<and> peerConnection (st ex_connected) \<noteq> None \<and> peerFetch (st ex_connected) \<noteq> None
   \<and> peerConnectionStatus (st ex_authenticating) = PEER_AUTHENTICATING
   \<and> edgeAPI (st ex_authenticating) \<noteq> None
   \<and> peerConnectionStatus (st (initial Map.empty)) = PEER_DISCONNECTED
   \<and> peerConnection (st (initial Map.empty)) = None
   \<and> edgeAPI (st (initial Map.empty)) = None"
proof -
  have c: "peerConnectionStatus (st ex_connected) = PEER_CONNECTED"
    by (simp add: ex_connected_eq)
  have a: "peerConnectionStatus (st ex_authenticating) = PEER_AUTHENTICATING"
    by (simp add: ex_authenticating_eq)
  have d: "peerConnectionStatus (st (initial Map.empty)) = PEER_DISCONNECTED"
    by (simp add: initial_def initial_state_def)
  from c a d
    handles_in_reachable_states [OF reachable_examples(4)]
    handles_in_reachable_states [OF reachable_examples(3)]
    handles_in_reachable_states [OF reachable_initial [of Map.empty]]
  show ?thesis by blast
qed

subsection \<open>C2: the offer timeout\<close>

text \<open>
  What the offer timer does when it fires: it closes the connection object stored in
  \<open>state.peerConnection\<close>, if there is one, and reports the failure. The connection
  object \<open>c\<close> of the attempt itself is left as it was whenever it is not the stored
  one; with nothing stored no connection object is closed at all. A timer fires once.
\<close>

lemma offer_timeout_effect:
  assumes tm: "lookup (timers s) t = Some tm" and pend: "pending tm"
    and cb: "callback tm = CB_handlePeerConnectOfferTimeout c remoteId"
    and other: "peerConnection (st s) \<noteq> Some c"
  shows "lookup (conns (step (Timer_fires t) s)) c = lookup (conns s) c
    \<and> (peerConnection (st s) = None \<longrightarrow>
          conns (step (Timer_fires t) s) = conns s
        \<and> peerConnectionStatus (st (step (Timer_fires t) s)) = PEER_CONNECTION_ERROR
        \<and> userMessage (st (step (Timer_fires t) s)) =
            ''Peer connection attempt failed. Is the remote device online?''
        \<and> statusLog (step (Timer_fires t) s) = statusLog s @ [PEER_CONNECTION_ERROR])
    \<and> step (Timer_fires t) (step (Timer_fires t) s) = step (Timer_fires t) s"
proof -
  let ?s0 = "s\<lparr>timers := (timers s)[t := tm\<lparr>pending := False\<rparr>]\<rparr>"
  have fire: "step (Timer_fires t) s = handlePeerConnectOfferTimeout c remoteId ?s0"
    using tm pend cb by (simp add: run_callback_def)
  have untouched: "lookup (conns (step (Timer_fires t) s)) c = lookup (conns s) c"
    unfolding fire using other by (simp add: conns_offer_timeout)
  have fresh: "peerConnection (st s) = None \<longrightarrow>
          conns (step (Timer_fires t) s) = conns s
        \<and> peerConnectionStatus (st (step (Timer_fires t) s)) = PEER_CONNECTION_ERROR
        \<and> userMessage (st (step (Timer_fires t) s)) =
            ''Peer connection attempt failed. Is the remote device online?''
        \<and> statusLog (step (Timer_fires t) s) = statusLog s @ [PEER_CONNECTION_ERROR]"
    unfolding fire
    by (simp add: handlePeerConnectOfferTimeout_def HANDLE_PEER_CONNECTION_ERROR_def
        commit_defs msg_offer_expired_def)
  have "lookup (timers (step (Timer_fires t) s)) t = Some (tm\<lparr>pending := False\<rparr>)"
    unfolding fire using tm by (simp add: timers_offer_timeout lookup_def split: if_splits)
  then have once: "step (Timer_fires t) (step (Timer_fires t) s) = step (Timer_fires t) s"
    by simp
  from untouched fresh once show ?thesis by blast
qed

text \<open>
  Claim C2 says that when no open event arrives before the offer timer (15000 ms)
  fires, the half-open connection object is closed and the status becomes
  CONNECTION_ERROR exactly once with the message "Peer connection attempt failed. Is
  the remote device online?". Evaluated on the first connect attempt of a fresh store:
  the status, its history and the message are as claimed, but connection object 0, the
  half-open one, is not closed.
\<close>

theorem offer_timeout_leaves_connection_open:
  "timers ex_connecting =
     [\<lparr>callback = CB_handlePeerConnectOfferTimeout 0 ''edge'', delay = 15000, pending = True\<rparr>]
   \<and> map conn_closed (conns ex_connecting) = [False]
   \<and> map conn_closed (conns (step (Timer_fires 0) ex_connecting)) = [False]
   \<and> peerConnectionStatus (st (step (Timer_fires 0) ex_connecting)) = PEER_CONNECTION_ERROR
   \<and> userMessage (st (step (Timer_fires 0) ex_connecting)) =
       ''Peer connection attempt failed. Is the remote device online?''
   \<and> statusLog (step (Timer_fires 0) ex_connecting) = [PEER_CONNECTING, PEER_CONNECTION_ERROR]"
proof -
  have tms: "timers ex_connecting =
     [\<lparr>callback = CB_handlePeerConnectOfferTimeout 0 ''edge'', delay = 15000, pending = True\<rparr>]"
    by (simp add: ex_connecting_eq)
  have tm: "lookup (timers ex_connecting) 0 =
      Some \<lparr>callback = CB_handlePeerConnectOfferTimeout 0 ''edge'', delay = 15000, pending = True\<rparr>"
    by (simp add: tms lookup_def)
  have none: "peerConnection (st ex_connecting) = None" by (simp add: ex_connecting_eq)
  have cl: "map conn_closed (conns ex_connecting) = [False]" by (simp add: ex_connecting_eq)
  have lg: "statusLog ex_connecting = [PEER_CONNECTING]" by (simp add: ex_connecting_eq)
  from offer_timeout_effect [OF tm, of 0 "''edge''"] none
  have "conns (step (Timer_fires 0) ex_connecting) = conns ex_connecting
        \<and> peerConnectionStatus (st (step (Timer_fires 0) ex_connecting)) = PEER_CONNECTION_ERROR
        \<and> userMessage (st (step (Timer_fires 0) ex_connecting)) =
            ''Peer connection attempt failed. Is the remote device online?''
        \<and> statusLog (step (Timer_fires 0) ex_connecting) =
            statusLog ex_connecting @ [PEER_CONNECTION_ERROR]"
    by (simp del: step.simps)
  with tms cl lg show ?thesis by (simp del: step.simps)
qed

subsection \<open>C3: who writes the persisted remote peer id\<close>

text \<open>
  Claim C3 says that the persisted remote peer id is written only as a consequence of a
  successful authentication handshake and cleared only by the explicit remove
  operation. CHANGE_REMOTE_PEER_ID commits NEW_REMOTE_PEER_ID itself, before it
  connects: on a fresh store with empty storage it writes the id although no
  authentication has taken place (the status of the peer connection was never set).
\<close>

theorem change_writes_without_authentication:
  "localStorage (initial Map.empty) remotePeerIdKey = None
   \<and> localStorage (step (Cmd_CHANGE_REMOTE_PEER_ID ''edge-b'') (initial Map.empty))
        remotePeerIdKey = Some ''edge-b''
   \<and> statusLog (step (Cmd_CHANGE_REMOTE_PEER_ID ''edge-b'') (initial Map.empty)) = []
   \<and> authPending (step (Cmd_CHANGE_REMOTE_PEER_ID ''edge-b'') (initial Map.empty)) = []"
  by (simp add: action_defs commit_defs)

text \<open>
  Claim C3, amended: a step of the store changes durable storage only if it is the
  change-remote-peer-id operation (which removes the old id and then writes the new
  one), the remove operation (which clears the id), or the answer to a pending
  \<open>auth()\<close> that passes authentication (which writes the id of the authenticated
  connection's peer); each of them changes only the entry under the key
  \<open>STORAGE_KEY + ".remotePeerId"\<close>. No other step writes or clears it.
\<close>

theorem persisted_id_writers:
  assumes "localStorage (step e s) \<noteq> localStorage s"
  shows "(\<exists>remoteId. e = Cmd_CHANGE_REMOTE_PEER_ID remoteId
            \<and> localStorage (step e s) = (localStorage s)(remotePeerIdKey \<mapsto> remoteId))
         \<or> (e = Cmd_REMOVE_REMOTE_PEER_ID
            \<and> localStorage (step e s) = (localStorage s)(remotePeerIdKey := None))
         \<or> (\<exists>c r. e = Auth_reply c r \<and> c \<in> set (authPending s) \<and> authPassed s r
            \<and> localStorage (step e s) = (localStorage s)(remotePeerIdKey \<mapsto> peerOf s c))"
proof -
  have eq: "localStorage (step e s) = snd (persisted (step e s))"
    by (simp add: persisted_def)
  have "snd (persisted (step e s)) \<noteq> localStorage s"
    using assms by (simp add: persisted_def)
  then show ?thesis
    unfolding eq persisted_step
    by (cases e) (auto simp: persisted_def split: if_splits)
qed

theorem persisted_id_writers_witness:
  "localStorage (step (Cmd_CHANGE_REMOTE_PEER_ID ''edge-b'') (initial Map.empty)) =
     (localStorage (initial Map.empty))(remotePeerIdKey \<mapsto> ''edge-b'')
   \<and> localStorage (step (Auth_reply 0 (AuthReturns (Some marked_response))) ex_authenticating) =
     (localStorage ex_authenticating)(remotePeerIdKey \<mapsto> ''edge'')"
proof -
  have "localStorage (step (Cmd_CHANGE_REMOTE_PEER_ID ''edge-b'') (initial Map.empty))
          remotePeerIdKey \<noteq> localStorage (initial Map.empty) remotePeerIdKey"
    by (simp add: action_defs commit_defs)
  then have h1: "localStorage (step (Cmd_CHANGE_REMOTE_PEER_ID ''edge-b'') (initial Map.empty))
          \<noteq> localStorage (initial Map.empty)"
    by metis
  have "localStorage (step (Auth_reply 0 (AuthReturns (Some marked_response))) ex_authenticating)
          remotePeerIdKey \<noteq> localStorage ex_authenticating remotePeerIdKey"
    by (simp add: ex_authenticating_eq marked_response_def action_defs commit_defs)
  then have h2: "localStorage
          (step (Auth_reply 0 (AuthReturns (Some marked_response))) ex_authenticating)
          \<noteq> localStorage ex_authenticating"
    by metis
  have p: "peerOf ex_authenticating 0 = ''edge''"
    by (simp add: ex_authenticating_eq peerOf_def lookup_def)
  from persisted_id_writers [OF h1] persisted_id_writers [OF h2] p
  show ?thesis by (simp del: step.simps)
qed

subsection \<open>C4: successful authentication\<close>

text \<open>
  Claim C4: for a connection whose \<open>auth()\<close> response has status 200 and whose decoded
  content contains the trust marker "Ambianic", PEER_AUTHENTICATE takes the status from
  AUTHENTICATING to CONNECTED, stores the connection object, and ends with the persisted
  remote id equal to the connection's peer id. The operation is run from any reachable
  state, on a connection object \<open>c\<close>, without another handler between the call of
  \<open>auth()\<close> and its answer.
\<close>

theorem authenticate_success:
  assumes reach: "reachable s"
    and conn: "lookup (conns s) c = Some co"
    and hdr: "header resp = Some h" and ok: "status h = 200"
    and dec: "decoded s resp = Some text" and marker: "str_includes text ''Ambianic''"
  shows "peerConnectionStatus (st (PEER_AUTHENTICATE_start c s)) = PEER_AUTHENTICATING
    \<and> peerConnectionStatus
        (st (PEER_AUTHENTICATE_resume c (AuthReturns (Some resp)) (PEER_AUTHENTICATE_start c s)))
        = PEER_CONNECTED
    \<and> peerConnection
        (st (PEER_AUTHENTICATE_resume c (AuthReturns (Some resp)) (PEER_AUTHENTICATE_start c s)))
        = Some c
    \<and> localStorage
        (PEER_AUTHENTICATE_resume c (AuthReturns (Some resp)) (PEER_AUTHENTICATE_start c s))
        remotePeerIdKey = Some (conn_peer co)
    \<and> remotePeerId
        (st (PEER_AUTHENTICATE_resume c (AuthReturns (Some resp)) (PEER_AUTHENTICATE_start c s)))
        = Some (conn_peer co)
    \<and> statusLog
        (PEER_AUTHENTICATE_resume c (AuthReturns (Some resp)) (PEER_AUTHENTICATE_start c s))
        = statusLog s @ [PEER_AUTHENTICATING, PEER_CONNECTED]"
proof -
  let ?s1 = "PEER_AUTHENTICATE_start c s"
  have passed: "authPassed ?s1 (AuthReturns (Some resp))"
    using hdr ok dec marker by (simp add: authPassed_iff)
  have sync: "remotePeerId (st s) = localStorage s remotePeerIdKey"
    using reach by (rule storage_sync)
  have peer: "peerOf ?s1 c = conn_peer co"
    using conn by (simp add: peerOf_def start_fields)
  let ?s2 = "commit_PEER_CONNECTED c ?s1"
  have resume: "PEER_AUTHENTICATE_resume c (AuthReturns (Some resp)) ?s1 =
      (if remotePeerId (st ?s2) \<noteq> Some (conn_peer co)
       then commit_NEW_REMOTE_PEER_ID (conn_peer co) ?s2 else ?s2)"
    using passed peer by (simp add: PEER_AUTHENTICATE_resume_def Let_def)
  have s2: "st ?s2 = (st ?s1)\<lparr>peerConnection := Some c, peerConnectionStatus := PEER_CONNECTED\<rparr>"
    "statusLog ?s2 = statusLog s @ [PEER_AUTHENTICATING, PEER_CONNECTED]"
    "localStorage ?s2 = localStorage s"
    by (simp_all add: commit_defs start_fields)
  show ?thesis
  proof (cases "remotePeerId (st ?s2) = Some (conn_peer co)")
    case True
    then show ?thesis
      using sync by (simp add: resume s2 start_fields)
  next
    case False
    then show ?thesis
      by (simp add: resume s2 start_fields commit_NEW_REMOTE_PEER_ID_def)
  qed
qed

theorem authenticate_success_witness:
  "reachable ex_opened
   \<and> decoded ex_opened marked_response = Some ''Ambianic Edge''
   \<and> str_includes ''Ambianic Edge'' ''Ambianic''
   \<and> peerConnectionStatus (st (PEER_AUTHENTICATE_start 0 ex_opened)) = PEER_AUTHENTICATING
   \<and> peerConnectionStatus
        (st (PEER_AUTHENTICATE_resume 0 (AuthReturns (Some marked_response))
              (PEER_AUTHENTICATE_start 0 ex_opened))) = PEER_CONNECTED
   \<and> peerConnection
        (st (PEER_AUTHENTICATE_resume 0 (AuthReturns (Some marked_response))
              (PEER_AUTHENTICATE_start 0 ex_opened))) = Some 0
   \<and> localStorage
        (PEER_AUTHENTICATE_resume 0 (AuthReturns (Some marked_response))
          (PEER_AUTHENTICATE_start 0 ex_opened)) remotePeerIdKey = Some ''edge''"
proof -
  have conn: "lookup (conns ex_opened) 0 =
      Some \<lparr>conn_peer = ''edge'', conn_closed = False, close_raises = False,
            conn_wired = True, offerTimer = Some 0\<rparr>"
    by (simp add: ex_opened_eq lookup_def)
  have hdr: "header marked_response = Some (Header 200)"
    by (simp add: marked_response_def)
  have ok: "status (Header 200) = 200" by simp
  have dec: "decoded ex_opened marked_response = Some ''Ambianic Edge''"
    by (simp add: ex_opened_eq marked_response_def decoded_def)
  have marker: "str_includes ''Ambianic Edge'' ''Ambianic''" by simp
  from authenticate_success [OF reachable_examples(2) conn hdr ok dec marker]
    reachable_examples(2) dec marker
  show ?thesis by simp
qed

subsection \<open>C5: failed authentication\<close>

text \<open>
  Claim C5: when the \<open>auth()\<close> request raises, or returns no response, no header or a
  status other than 200, or when decoding the content raises or the decoded text lacks
  the trust marker, PEER_AUTHENTICATE reports through HANDLE_PEER_CONNECTION_ERROR with
  the message "Remote peer authentication failed.", the status becomes
  CONNECTION_ERROR, and durable storage and the remote id in the state are not written.
\<close>

theorem authenticate_failure:
  assumes "r = AuthRaises \<or> r = AuthReturns None
     \<or> (\<exists>resp. r = AuthReturns (Some resp)
          \<and> (header resp = None
             \<or> (\<exists>h. header resp = Some h \<and> status h \<noteq> 200)
             \<or> decoded s resp = None
             \<or> (\<exists>text. decoded s resp = Some text \<and> \<not> str_includes text ''Ambianic'')))"
  shows "PEER_AUTHENTICATE_resume c r s =
           HANDLE_PEER_CONNECTION_ERROR c ''Remote peer authentication failed.'' s
    \<and> userMessage (st (PEER_AUTHENTICATE_resume c r s)) = ''Remote peer authentication failed.''
    \<and> peerConnectionStatus (st (PEER_AUTHENTICATE_resume c r s)) = PEER_CONNECTION_ERROR
    \<and> localStorage (PEER_AUTHENTICATE_resume c r s) = localStorage s
    \<and> remotePeerId (st (PEER_AUTHENTICATE_resume c r s)) = remotePeerId (st s)"
proof -
  have "\<not> authPassed s r"
    using assms by (auto simp: authPassed_iff)
  then show ?thesis
    by (simp add: PEER_AUTHENTICATE_resume_def HANDLE_PEER_CONNECTION_ERROR_def
        msg_auth_failed_def commit_defs)
qed

theorem authenticate_failure_witness:
  "decoded ex_authenticating unmarked_response = Some ''no-marker''
   \<and> \<not> str_includes ''no-marker'' ''Ambianic''
   \<and> userMessage (st (PEER_AUTHENTICATE_resume 0 (AuthReturns (Some unmarked_response))
        ex_authenticating)) = ''Remote peer authentication failed.''
   \<and> peerConnectionStatus (st (PEER_AUTHENTICATE_resume 0 (AuthReturns (Some unmarked_response))
        ex_authenticating)) = PEER_CONNECTION_ERROR
   \<and> localStorage (PEER_AUTHENTICATE_resume 0 (AuthReturns (Some unmarked_response))
        ex_authenticating) = localStorage ex_authenticating
   \<and> peerConnectionStatus (st (PEER_AUTHENTICATE_resume 0 AuthRaises ex_authenticating))
        = PEER_CONNECTION_ERROR
   \<and> localStorage (PEER_AUTHENTICATE_resume 0 AuthRaises ex_authenticating)
        = localStorage ex_authenticating"
proof -
  have dec: "decoded ex_authenticating unmarked_response = Some ''no-marker''"
    by (simp add: ex_authenticating_eq unmarked_response_def decoded_def)
  have lacks: "\<not> str_includes ''no-marker'' ''Ambianic''" by simp
  have h1: "AuthReturns (Some unmarked_response) = AuthRaises
     \<or> AuthReturns (Some unmarked_response) = AuthReturns None
     \<or> (\<exists>resp. AuthReturns (Some unmarked_response) = AuthReturns (Some resp)
          \<and> (header resp = None
             \<or> (\<exists>h. header resp = Some h \<and> status h \<noteq> 200)
             \<or> decoded ex_authenticating resp = None
             \<or> (\<exists>text. decoded ex_authenticating resp = Some text
                  \<and> \<not> str_includes text ''Ambianic'')))"
    using dec lacks by blast
  have h2: "AuthRaises = AuthRaises
     \<or> AuthRaises = AuthReturns None
     \<or> (\<exists>resp. AuthRaises = AuthReturns (Some resp)
          \<and> (header resp = None
             \<or> (\<exists>h. header resp = Some h \<and> status h \<noteq> 200)
             \<or> decoded ex_authenticating resp = None
             \<or> (\<exists>text. decoded ex_authenticating resp = Some text
                  \<and> \<not> str_includes text ''Ambianic'')))"
    by simp
  from authenticate_failure [OF h1, of 0] authenticate_failure [OF h2, of 0] dec lacks
  show ?thesis by blast
qed

subsection \<open>C6: discovery that finds only the local identity\<close>

text \<open>
  The answer of the room query when the member list is the singleton of the local
  identity: the filtered list is empty, \<open>discoverRemotePeerIds\<close> publishes the "still
  looking" message and returns \<open>undefined\<close>, and PEER_DISCOVERING_DONE stores that
  return value in \<open>discoveredPeers\<close>.
\<close>

lemma discovery_only_self:
  assumes "myPeerId (st s) = Some me" and "0 < roomPending s"
  shows "st (step (Room_reply (RoomMembers (Some [me]))) s) =
           (st s)\<lparr>userMessage := msg_still_looking,
                  discoveryStatus := PEER_DISCOVERING_DONE, discoveredPeers := None\<rparr>"
  using assms
  by (simp add: discoveryLoop_resume_def discoverRemotePeerIds_def commit_defs)

text \<open>
  Claim C6 says that a discovery round whose room member list is the singleton of the
  local identity ends with DiscoveryStatus DONE (not ERROR), an empty discovered-peer
  set, and the "still looking" message published. Evaluated on a store with identity
  \<open>ui\<close> and the member list \<open>[ui]\<close>: the status is DONE and the message is published,
  but \<open>discoveredPeers\<close> is \<open>undefined\<close>, not the empty list that the initial state
  and the mutation PEER_DISCOVERING use for "no peers".
\<close>

theorem discovery_only_self_leaves_undefined:
  "myPeerId (st ex_discovering) = Some ''ui''
   \<and> discoveredPeers (st ex_discovering) = Some []
   \<and> discoveryStatus (st (step (Room_reply (RoomMembers (Some [''ui'']))) ex_discovering))
       = PEER_DISCOVERING_DONE
   \<and> discoveredPeers (st (step (Room_reply (RoomMembers (Some [''ui'']))) ex_discovering))
       = None
   \<and> userMessage (st (step (Room_reply (RoomMembers (Some [''ui'']))) ex_discovering))
       = msg_still_looking"
proof -
  have me: "myPeerId (st ex_discovering) = Some ''ui''" by (simp add: ex_discovering_eq)
  have pending: "0 < roomPending ex_discovering" by (simp add: ex_discovering_eq)
  have before: "discoveredPeers (st ex_discovering) = Some []" by (simp add: ex_discovering_eq)
  from discovery_only_self [OF me pending] me before
  show ?thesis by (simp del: step.simps)
qed

subsection \<open>C7: connect while connecting or connected\<close>

text \<open>
  Claim C7: the connect operation invoked with any remote peer id while the status is
  CONNECTING or CONNECTED returns at once and leaves the whole system as it was: no
  connection object is created and no timer is armed or cleared.
\<close>

theorem connect_guard:
  assumes "peerConnectionStatus (st s) = PEER_CONNECTING \<or>
           peerConnectionStatus (st s) = PEER_CONNECTED"
  shows "step (Cmd_PEER_CONNECT remoteId) s = s
         \<and> conns (step (Cmd_PEER_CONNECT remoteId) s) = conns s
         \<and> timers (step (Cmd_PEER_CONNECT remoteId) s) = timers s"
  using assms by (simp add: PEER_CONNECT_def)

theorem connect_guard_witness:
  "peerConnectionStatus (st ex_connecting) = PEER_CONNECTING
   \<and> step (Cmd_PEER_CONNECT ''other'') ex_connecting = ex_connecting
   \<and> peerConnectionStatus (st ex_connected) = PEER_CONNECTED
   \<and> step (Cmd_PEER_CONNECT ''other'') ex_connected = ex_connected"
proof -
  have a: "peerConnectionStatus (st ex_connecting) = PEER_CONNECTING"
    by (simp add: ex_connecting_eq)
  have b: "peerConnectionStatus (st ex_connected) = PEER_CONNECTED"
    by (simp add: ex_connected_eq)
  from a b connect_guard [OF disjI1 [OF a], of "''other''"]
    connect_guard [OF disjI2 [OF b], of "''other''"]
  show ?thesis by blast
qed

subsection \<open>C8: the connection-error funnel\<close>

text \<open>
  The offer timeout handler closes a connection left in \<open>state.peerConnection\<close> before
  it reports, with no \<open>try\<close> around the call. When that \<open>close()\<close> raises, the handler
  stops there: in the run below the offer timer of the second attempt fires and neither
  the state nor the history of the status changes.
\<close>

lemma offer_timeout_aborts_when_close_raises:
  "reachable (step (Conn_faulty 0) ex_retry)
   \<and> peerConnection (st (step (Conn_faulty 0) ex_retry)) = Some 0
   \<and> map close_raises (conns (step (Conn_faulty 0) ex_retry)) = [True, False]
   \<and> st (step (Timer_fires 2) (step (Conn_faulty 0) ex_retry))
       = st (step (Conn_faulty 0) ex_retry)
   \<and> statusLog (step (Timer_fires 2) (step (Conn_faulty 0) ex_retry))
       = statusLog (step (Conn_faulty 0) ex_retry)"
proof -
  have "reachable (step (Conn_faulty 0) ex_retry)"
    by (rule reachable_step [OF reachable_examples(5)])
  moreover have "peerConnection (st (step (Conn_faulty 0) ex_retry)) = Some 0
   \<and> map close_raises (conns (step (Conn_faulty 0) ex_retry)) = [True, False]
   \<and> st (step (Timer_fires 2) (step (Conn_faulty 0) ex_retry))
       = st (step (Conn_faulty 0) ex_retry)
   \<and> statusLog (step (Timer_fires 2) (step (Conn_faulty 0) ex_retry))
       = statusLog (step (Conn_faulty 0) ex_retry)"
    by (simp add: ex_retry_eq action_defs commit_defs msg_defs)
  ultimately show ?thesis by simp
qed

text \<open>
  Claim C8 says that the connection-error handler tears down connection state (clears
  the connection object and both channel handles), surfaces the message and sets the
  status to CONNECTION_ERROR. HANDLE_PEER_CONNECTION_ERROR commits USER_MESSAGE and
  PEER_CONNECTION_ERROR and nothing else: after a transport error on the connection of
  a connected store the connection object and both handles are still in the state.
\<close>

theorem connection_error_keeps_handles:
  "peerConnectionStatus (st (step (Conn_error 0) ex_connected)) = PEER_CONNECTION_ERROR
   \<and> userMessage (st (step (Conn_error 0) ex_connected)) =
       ''Error in connection to remote peer ID: edge''
   \<and> peerConnection (st (step (Conn_error 0) ex_connected)) = Some 0
   \<and> peerFetch (st (step (Conn_error 0) ex_connected)) = Some 0
   \<and> edgeAPI (st (step (Conn_error 0) ex_connected)) = Some EdgeAPI"
  by (simp add: ex_connected_eq action_defs commit_defs msg_defs)

text \<open>
  Claim C8, amended: every transport error on a connection object that has the store's
  handlers installed, and every offer timeout in which closing a connection left in
  \<open>state.peerConnection\<close> (if there is one) does not raise, goes through
  HANDLE_PEER_CONNECTION_ERROR; the handler sets the user message to the supplied
  message and the status to CONNECTION_ERROR and changes no other field of the state,
  so the connection object and both channel handles stay as they were.
\<close>

theorem connection_error_funnel:
  "st (HANDLE_PEER_CONNECTION_ERROR c errMsg s) =
      (st s)\<lparr>userMessage := errMsg, peerConnectionStatus := PEER_CONNECTION_ERROR\<rparr>
   \<and> (\<forall>co. lookup (conns s) c = Some co \<and> conn_wired co \<longrightarrow>
         st (step (Conn_error c) s) =
           (st s)\<lparr>userMessage := msg_connection_error (conn_peer co),
                  peerConnectionStatus := PEER_CONNECTION_ERROR\<rparr>
         \<and> (\<exists>s'. st s' = st s
               \<and> step (Conn_error c) s =
                   HANDLE_PEER_CONNECTION_ERROR c (msg_connection_error (conn_peer co)) s'))
   \<and> (\<forall>tm remoteId. lookup (timers s) t = Some tm \<and> pending tm
         \<and> callback tm = CB_handlePeerConnectOfferTimeout c remoteId
         \<and> (\<forall>c'. peerConnection (st s) = Some c' \<longrightarrow> conn_close c' s \<noteq> None) \<longrightarrow>
         st (step (Timer_fires t) s) =
           (st s)\<lparr>userMessage := ''Peer connection attempt failed. Is the remote device online?'',
                  peerConnectionStatus := PEER_CONNECTION_ERROR\<rparr>
         \<and> (\<exists>s'. st s' = st s
               \<and> step (Timer_fires t) s =
                   HANDLE_PEER_CONNECTION_ERROR c
                     ''Peer connection attempt failed. Is the remote device online?'' s'))"
proof -
  have handler: "st (HANDLE_PEER_CONNECTION_ERROR c errMsg s) =
      (st s)\<lparr>userMessage := errMsg, peerConnectionStatus := PEER_CONNECTION_ERROR\<rparr>"
    for c errMsg s
    by (simp add: HANDLE_PEER_CONNECTION_ERROR_def commit_defs)
  have transport: "st (step (Conn_error c) s) =
           (st s)\<lparr>userMessage := msg_connection_error (conn_peer co),
                  peerConnectionStatus := PEER_CONNECTION_ERROR\<rparr>
         \<and> (\<exists>s'. st s' = st s
               \<and> step (Conn_error c) s =
                   HANDLE_PEER_CONNECTION_ERROR c (msg_connection_error (conn_peer co)) s')"
    if co: "lookup (conns s) c = Some co" and wired: "conn_wired co" for co
  proof -
    let ?s' = "clearTimeout (offerTimer co) s"
    have eq: "step (Conn_error c) s =
        HANDLE_PEER_CONNECTION_ERROR c (msg_connection_error (conn_peer co)) ?s'"
      using co wired
      by (simp add: conn_event_def on_conn_error_def lookup_update_same)
    have same: "st ?s' = st s"
      by (simp add: clearTimeout_def split: option.splits)
    have 1: "st (step (Conn_error c) s) =
           (st s)\<lparr>userMessage := msg_connection_error (conn_peer co),
                  peerConnectionStatus := PEER_CONNECTION_ERROR\<rparr>"
      unfolding eq by (simp add: handler same)
    have 2: "\<exists>s'. st s' = st s
               \<and> step (Conn_error c) s =
                   HANDLE_PEER_CONNECTION_ERROR c (msg_connection_error (conn_peer co)) s'"
      using eq same by (intro exI [of _ ?s'] conjI)
    from 1 2 show ?thesis by (rule conjI)
  qed
  have timeout: "st (step (Timer_fires t) s) =
           (st s)\<lparr>userMessage := ''Peer connection attempt failed. Is the remote device online?'',
                  peerConnectionStatus := PEER_CONNECTION_ERROR\<rparr>
         \<and> (\<exists>s'. st s' = st s
               \<and> step (Timer_fires t) s =
                   HANDLE_PEER_CONNECTION_ERROR c
                     ''Peer connection attempt failed. Is the remote device online?'' s')"
    if tm: "lookup (timers s) t = Some tm" and pend: "pending tm"
      and cb: "callback tm = CB_handlePeerConnectOfferTimeout c remoteId"
      and ok: "\<forall>c'. peerConnection (st s) = Some c' \<longrightarrow> conn_close c' s \<noteq> None"
    for tm remoteId
  proof -
    let ?s0 = "s\<lparr>timers := (timers s)[t := tm\<lparr>pending := False\<rparr>]\<rparr>"
    have fire: "step (Timer_fires t) s = handlePeerConnectOfferTimeout c remoteId ?s0"
      using tm pend cb by (simp add: run_callback_def)
    have "\<exists>s'. st s' = st s
        \<and> handlePeerConnectOfferTimeout c remoteId ?s0 =
            HANDLE_PEER_CONNECTION_ERROR c
              ''Peer connection attempt failed. Is the remote device online?'' s'"
    proof (cases "peerConnection (st s)")
      case None
      then have "handlePeerConnectOfferTimeout c remoteId ?s0 =
          HANDLE_PEER_CONNECTION_ERROR c
            ''Peer connection attempt failed. Is the remote device online?'' ?s0"
        by (simp add: handlePeerConnectOfferTimeout_def msg_offer_expired_def)
      moreover have "st ?s0 = st s" by simp
      ultimately show ?thesis by (intro exI [of _ ?s0] conjI)
    next
      case (Some c')
      with ok have closes: "conn_close c' s \<noteq> None" by simp
      define s2 where "s2 = (case conn_close c' ?s0 of None \<Rightarrow> ?s0 | Some x \<Rightarrow> x)"
      have s2: "conn_close c' ?s0 = Some s2" and st2: "st s2 = st s"
        using closes
        by (auto simp: s2_def conn_close_def split: option.splits if_splits)
      from Some s2 have "handlePeerConnectOfferTimeout c remoteId ?s0 =
          HANDLE_PEER_CONNECTION_ERROR c
            ''Peer connection attempt failed. Is the remote device online?'' s2"
        by (simp add: handlePeerConnectOfferTimeout_def msg_offer_expired_def)
      with st2 show ?thesis by (intro exI [of _ s2] conjI)
    qed
    then obtain s' where s': "st s' = st s"
      and eq: "step (Timer_fires t) s =
            HANDLE_PEER_CONNECTION_ERROR c
              ''Peer connection attempt failed. Is the remote device online?'' s'"
      unfolding fire by blast
    have 1: "st (step (Timer_fires t) s) =
           (st s)\<lparr>userMessage := ''Peer connection attempt failed. Is the remote device online?'',
                  peerConnectionStatus := PEER_CONNECTION_ERROR\<rparr>"
      unfolding eq by (simp add: handler s')
    have 2: "\<exists>s'. st s' = st s
               \<and> step (Timer_fires t) s =
                   HANDLE_PEER_CONNECTION_ERROR c
                     ''Peer connection attempt failed. Is the remote device online?'' s'"
      using s' eq by (intro exI [of _ s'] conjI)
    from 1 2 show ?thesis by (rule conjI)
  qed
  show ?thesis
  proof (intro conjI allI impI)
    show "st (HANDLE_PEER_CONNECTION_ERROR c errMsg s) =
      (st s)\<lparr>userMessage := errMsg, peerConnectionStatus := PEER_CONNECTION_ERROR\<rparr>"
      by (rule handler)
  qed (use transport timeout in \<open>blast+\<close>)
qed

theorem connection_error_funnel_witness:
  "st (step (Conn_error 0) ex_connected) =
     (st ex_connected)\<lparr>userMessage := ''Error in connection to remote peer ID: edge'',
                       peerConnectionStatus := PEER_CONNECTION_ERROR\<rparr>
   \<and> peerConnection (st ex_retry) = Some 0
   \<and> st (step (Timer_fires 2) ex_retry) =
     (st ex_retry)\<lparr>userMessage := ''Peer connection attempt failed. Is the remote device online?'',
                   peerConnectionStatus := PEER_CONNECTION_ERROR\<rparr>"
proof -
  have conn: "lookup (conns ex_connected) 0 =
      Some \<lparr>conn_peer = ''edge'', conn_closed = False, close_raises = False,
            conn_wired = True, offerTimer = Some 0\<rparr>"
    by (simp add: ex_connected_eq lookup_def)
  have tm: "lookup (timers ex_retry) 2 =
      Some \<lparr>callback = CB_handlePeerConnectOfferTimeout 1 ''edge'', delay = 15000,
            pending = True\<rparr>"
    by (simp add: ex_retry_eq lookup_def)
  have stored: "peerConnection (st ex_retry) = Some 0" by (simp add: ex_retry_eq)
  have closes: "conn_close 0 ex_retry \<noteq> None"
    by (simp add: ex_retry_eq conn_close_def lookup_def)
  from connection_error_funnel [of 0 "''x''" ex_connected 0] conn
  have 1: "st (step (Conn_error 0) ex_connected) =
     (st ex_connected)\<lparr>userMessage := msg_connection_error ''edge'',
                       peerConnectionStatus := PEER_CONNECTION_ERROR\<rparr>"
    by (simp del: step.simps)
  from connection_error_funnel [of 1 "''x''" ex_retry 2] tm stored closes
  have 2: "st (step (Timer_fires 2) ex_retry) =
     (st ex_retry)\<lparr>userMessage := ''Peer connection attempt failed. Is the remote device online?'',
                   peerConnectionStatus := PEER_CONNECTION_ERROR\<rparr>"
    by (simp del: step.simps)
  from 1 2 stored show ?thesis by (simp add: msg_connection_error_def del: step.simps)
qed

subsection \<open>C9: disconnect\<close>

text \<open>
  Claim C9: the disconnect operation changes nothing when the status is already
  DISCONNECTED. Otherwise it commits DISCONNECTING, closes the connection object stored
  in the state if there is one, carries on when that close raises, and commits
  DISCONNECTED, which clears the connection object and both channel handles; nothing
  else in the state, no timer and no storage entry changes.
\<close>

theorem disconnect_effect:
  "(peerConnectionStatus (st s) = PEER_DISCONNECTED \<longrightarrow> step Cmd_PEER_DISCONNECT s = s)
   \<and> (peerConnectionStatus (st s) \<noteq> PEER_DISCONNECTED \<longrightarrow>
        st (step Cmd_PEER_DISCONNECT s) =
          (st s)\<lparr>peerConnection := None, peerConnectionStatus := PEER_DISCONNECTED,
                 peerFetch := None, edgeAPI := None\<rparr>
        \<and> statusLog (step Cmd_PEER_DISCONNECT s) =
            statusLog s @ [PEER_DISCONNECTING, PEER_DISCONNECTED]
        \<and> timers (step Cmd_PEER_DISCONNECT s) = timers s
        \<and> localStorage (step Cmd_PEER_DISCONNECT s) = localStorage s
        \<and> (\<forall>c co. peerConnection (st s) = Some c \<and> lookup (conns s) c = Some co \<longrightarrow>
              conns (step Cmd_PEER_DISCONNECT s) =
                (if close_raises co then conns s else (conns s)[c := co\<lparr>conn_closed := True\<rparr>]))
        \<and> (peerConnection (st s) = None \<longrightarrow> conns (step Cmd_PEER_DISCONNECT s) = conns s))"
  by (auto simp: PEER_DISCONNECT_def commit_defs conn_close_def Let_def
      split: option.splits)

theorem disconnect_effect_witness:
  "step Cmd_PEER_DISCONNECT (initial Map.empty) = initial Map.empty
   \<and> peerConnectionStatus (st ex_connected) = PEER_CONNECTED
   \<and> core (step Cmd_PEER_DISCONNECT ex_connected) = (PEER_DISCONNECTED, None, None, None)
   \<and> statusLog (step Cmd_PEER_DISCONNECT ex_connected) =
       statusLog ex_connected @ [PEER_DISCONNECTING, PEER_DISCONNECTED]
   \<and> map conn_closed (conns (step Cmd_PEER_DISCONNECT ex_connected)) = [True]
   \<and> core (step Cmd_PEER_DISCONNECT (step (Conn_faulty 0) ex_connected))
       = (PEER_DISCONNECTED, None, None, None)
   \<and> map conn_closed (conns (step Cmd_PEER_DISCONNECT (step (Conn_faulty 0) ex_connected)))
       = [False]"
proof -
  let ?faulty = "step (Conn_faulty 0) ex_connected"
  have d: "peerConnectionStatus (st (initial Map.empty)) = PEER_DISCONNECTED"
    by (simp add: initial_def initial_state_def)
  have c: "peerConnectionStatus (st ex_connected) = PEER_CONNECTED"
    by (simp add: ex_connected_eq)
  have pc: "peerConnection (st ex_connected) = Some 0" by (simp add: ex_connected_eq)
  have co: "lookup (conns ex_connected) 0 =
      Some \<lparr>conn_peer = ''edge'', conn_closed = False, close_raises = False,
            conn_wired = True, offerTimer = Some 0\<rparr>"
    by (simp add: ex_connected_eq lookup_def)
  have cs: "conns ex_connected =
      [\<lparr>conn_peer = ''edge'', conn_closed = False, close_raises = False,
            conn_wired = True, offerTimer = Some 0\<rparr>]"
    by (simp add: ex_connected_eq)
  have f: "peerConnectionStatus (st ?faulty) = PEER_CONNECTED"
    "peerConnection (st ?faulty) = Some 0"
    "lookup (conns ?faulty) 0 =
      Some \<lparr>conn_peer = ''edge'', conn_closed = False, close_raises = True,
            conn_wired = True, offerTimer = Some 0\<rparr>"
    "conns ?faulty =
      [\<lparr>conn_peer = ''edge'', conn_closed = False, close_raises = True,
            conn_wired = True, offerTimer = Some 0\<rparr>]"
    by (simp_all add: ex_connected_eq conn_event_def lookup_def)
  from disconnect_effect [of "initial Map.empty"] d
  have 1: "step Cmd_PEER_DISCONNECT (initial Map.empty) = initial Map.empty"
    by (simp del: step.simps)
  from disconnect_effect [of ex_connected] c pc co cs
  have 2: "core (step Cmd_PEER_DISCONNECT ex_connected) = (PEER_DISCONNECTED, None, None, None)
     \<and> statusLog (step Cmd_PEER_DISCONNECT ex_connected) =
         statusLog ex_connected @ [PEER_DISCONNECTING, PEER_DISCONNECTED]
     \<and> map conn_closed (conns (step Cmd_PEER_DISCONNECT ex_connected)) = [True]"
    by (simp add: core_def del: step.simps)
  from disconnect_effect [of ?faulty] f
  have 3: "core (step Cmd_PEER_DISCONNECT ?faulty) = (PEER_DISCONNECTED, None, None, None)
     \<and> map conn_closed (conns (step Cmd_PEER_DISCONNECT ?faulty)) = [False]"
    by (simp add: core_def del: step.simps)
  from 1 2 3 c show ?thesis by (simp del: step.simps)
qed

subsection \<open>C10: an incoming connection\<close>

text \<open>
  Claim C10: on every \<open>connection\<close> event of a relay session that has its handlers
  installed, the handler wires the incoming connection object (without offer timer)
  and commits PEER_CONNECTING whatever the status was; it changes no other field of the
  state, so the stored connection object and both channel handles stay, and it closes
  no connection object and touches no timer.
\<close>

theorem incoming_connection:
  assumes "lookup (peers s) a = Some po" and "peer_wired po"
  shows "st (step (Peer_connection a remote) s) =
           (st s)\<lparr>peerConnectionStatus := PEER_CONNECTING\<rparr>
         \<and> conns (step (Peer_connection a remote) s) =
             conns s @ [\<lparr>conn_peer = remote, conn_closed = False, close_raises = False,
                         conn_wired = True, offerTimer = None\<rparr>]
         \<and> timers (step (Peer_connection a remote) s) = timers s
         \<and> statusLog (step (Peer_connection a remote) s) = statusLog s @ [PEER_CONNECTING]"
  using assms
  by (simp add: peer_event_def on_peer_connection_def setPeerConnectionHandlers_def
      commit_defs lookup_update_same Let_def lookup_def)

theorem incoming_connection_witness:
  "peerConnectionStatus (st ex_connected) = PEER_CONNECTED
   \<and> core (step (Peer_connection 0 ''caller'') ex_connected)
       = (PEER_CONNECTING, Some 0, Some 0, Some EdgeAPI)
   \<and> map conn_closed (conns (step (Peer_connection 0 ''caller'') ex_connected))
       = [False, False]
   \<and> map conn_wired (conns (step (Peer_connection 0 ''caller'') ex_connected))
       = [True, True]
   \<and> timers (step (Peer_connection 0 ''caller'') ex_connected) = timers ex_connected"
proof -
  have po: "lookup (peers ex_connected) 0 =
      Some \<lparr>peer_id = Some ''ui'', lastServerId = None, peer_open = True, peer_wired = True\<rparr>"
    by (simp add: ex_connected_eq lookup_def)
  have w: "peer_wired
      \<lparr>peer_id = Some ''ui'', lastServerId = None, peer_open = True, peer_wired = True\<rparr>"
    by simp
  have c: "core ex_connected = (PEER_CONNECTED, Some 0, Some 0, Some EdgeAPI)"
    "conns ex_connected =
      [\<lparr>conn_peer = ''edge'', conn_closed = False, close_raises = False,
            conn_wired = True, offerTimer = Some 0\<rparr>]"
    by (simp_all add: ex_connected_eq core_def)
  from incoming_connection [OF po w, of "''caller''"] c
  show ?thesis by (simp add: core_def del: step.simps)
qed

end
